theory Spec2Isabelle
  imports Main
begin

section \<open>The rule change cache: \<open>already_sent\<close>\<close>

text \<open>
  \<^verbatim>\<open>
  def already_sent(rule_id, rule, sent_rule_map):
      previous_rule = sent_rule_map.get(rule_id, None)
      sent_rule_map[rule_id] = rule
      if previous_rule is None:
          return False
      return previous_rule == rule
  \<close>
  A cache is a Python dict from rule identifiers to rules, a map \<open>int \<rightharpoonup> 'r\<close>. The rule
  type \<open>'r\<close> stands for the codec's \<open>pfcp.IE_Compound\<close>, compared with \<open>==\<close>; a rule is
  never \<open>None\<close>. The function mutates the dict it is given: the model returns the
  answer together with the dict after the call.
\<close>

definition already_sent :: "int \<Rightarrow> 'r \<Rightarrow> (int \<rightharpoonup> 'r) \<Rightarrow> bool \<times> (int \<rightharpoonup> 'r)" where
  "already_sent rule_id rule sent_rule_map =
     (let previous_rule = sent_rule_map rule_id;
          sent_rule_map' = sent_rule_map(rule_id \<mapsto> rule)
      in case previous_rule of
           None \<Rightarrow> (False, sent_rule_map')
         | Some previous \<Rightarrow> (previous = rule, sent_rule_map'))"

text \<open>
  The specification names three classifications. This second definition follows the
  specification's words (store the candidate, classify against the previous value); it is
  compared with \<open>already_sent\<close> below. The code's answer \<open>True\<close> is \<open>Unchanged\<close>; its answer
  \<open>False\<close> is \<open>New\<close> when it comes from the branch \<open>previous_rule is None\<close> and \<open>Changed\<close>
  when it comes from the comparison.
\<close>

datatype classification = New | Unchanged | Changed

definition spec_classify :: "int \<Rightarrow> 'r \<Rightarrow> (int \<rightharpoonup> 'r) \<Rightarrow> classification \<times> (int \<rightharpoonup> 'r)" where
  "spec_classify i candidate cache =
     ((case cache i of
         None \<Rightarrow> New
       | Some previous \<Rightarrow> if previous = candidate then Unchanged else Changed),
      cache(i \<mapsto> candidate))"

definition classification_of :: "'r option \<Rightarrow> bool \<Rightarrow> classification" where
  "classification_of previous answer =
     (if answer then Unchanged else if previous = None then New else Changed)"

section \<open>Python results and the global state\<close>

text \<open>
  A call returns a value, raises an exception, or never returns (a blocking receive on a
  socket on which nothing arrives). State changes made before a raise persist, so every
  operation returns its result together with the state it leaves.
\<close>

datatype key = IntKey int | StrKey string

datatype error =
    KeyError key
  | NameError string
  | UnboundLocalError string
  | AttributeError string
  | TypeError string
  | StopIteration
  | AddressValueError
  | PyException string
  | SystemExit

datatype 'a result = Return 'a | Raise error | Blocked

definition ret :: "'a \<Rightarrow> 's \<Rightarrow> 'a result \<times> 's" where
  "ret x s = (Return x, s)"

definition throw :: "error \<Rightarrow> 's \<Rightarrow> 'a result \<times> 's" where
  "throw e s = (Raise e, s)"

definition and_then ::
  "('s \<Rightarrow> 'a result \<times> 's) \<Rightarrow> ('a \<Rightarrow> 's \<Rightarrow> 'b result \<times> 's) \<Rightarrow> 's \<Rightarrow> 'b result \<times> 's" where
  "and_then m f s =
     (case m s of
        (Return x, s') \<Rightarrow> f x s'
      | (Raise e, s') \<Rightarrow> (Raise e, s')
      | (Blocked, s') \<Rightarrow> (Blocked, s'))"

text \<open>
  \<^verbatim>\<open>
  @dataclass
  class Session:
      our_seid: int
      peer_seid: int
      sent_pdrs: Dict[int, pfcp.IE_Compound] = field(default_factory=dict)
      sent_fars, sent_urrs, sent_qers: likewise
  \<close>
  \<open>craft_pfcp_session_delete_packet\<close> tests \<open>session.peer_seid is None\<close>, so the field
  is an option.
\<close>

record 'r Session =
  session_our_seid :: int
  session_peer_seid :: "int option"
  session_sent_pdrs :: "int \<rightharpoonup> 'r"
  session_sent_fars :: "int \<rightharpoonup> 'r"
  session_sent_urrs :: "int \<rightharpoonup> 'r"
  session_sent_qers :: "int \<rightharpoonup> 'r"

text \<open>
  Requests, as far as this file builds them: the fields the code sets on the PFCP header
  (\<open>None\<close> for a field it leaves at the codec's default), the message class, the
  \<open>version\<close> it sets on some messages, and the list of information elements.
\<close>

datatype 'r ie =
    IE_NodeId string
  | IE_RecoveryTimeStamp
  | IE_FSEID int string
  | IE_PDNType
  | IE_Rule 'r

datatype message =
    PFCPAssociationSetupRequest
  | PFCPAssociationReleaseRequest
  | PFCPSessionEstablishmentRequest
  | PFCPSessionModificationRequest
  | PFCPSessionDeletionRequest
  | PFCPHeartbeatRequest

record pfcp_header =
  hdr_version :: "int option"
  hdr_S :: "int option"
  hdr_message_type :: "int option"
  hdr_seid :: "int option"
  hdr_seq :: "int option"

record 'r packet =
  ip_src :: string
  ip_dst :: string
  header :: pfcp_header
  message :: message
  message_version :: "int option"
  IE_list :: "'r ie list"

text \<open>
  A decoded response: its message type and its information elements, of which the code
  reads \<open>ie_type\<close> and, for type 57 (F-SEID), \<open>seid\<close>.
\<close>

record response_ie =
  ie_type :: int
  ie_seid :: int

record response =
  message_type :: int
  response_IE_list :: "response_ie list"

datatype 'r printed =
    Print string
  | Print_received response
  | Print_ie string response_ie
  | Show_packet "'r packet"
  | Show_response response

datatype 'r captured = Captured_packet "'r packet" | Captured_response response

text \<open>
  The module's global names (lines 39-49) and the world they act on. The names
  \<open>peer_seid\<close>, \<open>our_seid\<close>, \<open>sent_pdrs\<close>, \<open>sent_fars\<close>, \<open>sent_urrs\<close> and \<open>sent_qers\<close> are
  used by the functions but the module never declares them: \<open>None\<close> is the unbound name,
  whose use raises \<open>NameError\<close>. Only \<open>peer_seid\<close> is ever assigned (by
  \<open>send_recv_pfcp\<close>). \<open>wire\<close> lists the packets handed to \<open>scapy.send\<close>, oldest first;
  \<open>inbox\<close> the datagrams \<open>sock.recvfrom\<close> will return, in order, already decoded;
  \<open>stdout\<close> what was printed; \<open>pcap\<close> what \<open>capture\<close> appended to the capture file.
\<close>

record 'r globals =
  our_addr :: string
  peer_addr :: string
  sequence_number :: int
  association_established :: bool
  script_terminating :: bool
  active_sessions :: "int \<rightharpoonup> 'r Session"
  pcap_filename :: "string option"
  peer_seid :: "int option"
  our_seid :: "int option"
  sent_pdrs :: "(int \<rightharpoonup> 'r) option"
  sent_fars :: "(int \<rightharpoonup> 'r) option"
  sent_urrs :: "(int \<rightharpoonup> 'r) option"
  sent_qers :: "(int \<rightharpoonup> 'r) option"
  wire :: "'r packet list"
  inbox :: "response list"
  stdout :: "'r printed list"
  pcap :: "'r captured list"

definition initial_globals :: "string \<Rightarrow> string \<Rightarrow> string option \<Rightarrow> 'r globals" where
  "initial_globals our peer pcap_file =
     \<lparr>our_addr = our, peer_addr = peer, sequence_number = 0,
      association_established = False, script_terminating = False,
      active_sessions = Map.empty, pcap_filename = pcap_file,
      peer_seid = None, our_seid = None,
      sent_pdrs = None, sent_fars = None, sent_urrs = None, sent_qers = None,
      wire = [], inbox = [], stdout = [], pcap = []\<rparr>"

definition HEARTBEAT_PERIOD :: nat where "HEARTBEAT_PERIOD = 5"
definition IFACE_ACCESS :: int where "IFACE_ACCESS = 0"
definition IFACE_CORE :: int where "IFACE_CORE = 1"

text \<open>
  \<open>pfcp.PFCPmessageType\<close> is the codec's dict from message type numbers to names; it is
  not part of this repository and is a parameter \<open>tbl\<close> of the model, the list of the
  dict's items. \<open>MSG_TYPES = {name: num for num, name in pfcp.PFCPmessageType.items()}\<close>
  inverts it (a later item wins). Indexing either with a missing key raises \<open>KeyError\<close>.
\<close>

type_synonym message_types = "(int \<times> string) list"

definition PFCPmessageType :: "message_types \<Rightarrow> int \<Rightarrow> error + string" where
  "PFCPmessageType tbl num =
     (case map_of tbl num of None \<Rightarrow> Inl (KeyError (IntKey num)) | Some name \<Rightarrow> Inr name)"

definition MSG_TYPES :: "message_types \<Rightarrow> string \<Rightarrow> error + int" where
  "MSG_TYPES tbl name =
     (case map_of (rev (map (\<lambda>(num, name). (name, num)) tbl)) name of
        None \<Rightarrow> Inl (KeyError (StrKey name))
      | Some num \<Rightarrow> Inr num)"

definition lift :: "error + 'a \<Rightarrow> 's \<Rightarrow> 'a result \<times> 's" where
  "lift v s = (case v of Inl e \<Rightarrow> (Raise e, s) | Inr x \<Rightarrow> (Return x, s))"

text \<open>
  \<^verbatim>\<open>
  def capture(pkt):
      if pcap_filename:
          wrpcap(pcap_filename, pkt, append=True)
  \<close>
\<close>

definition capture :: "'r captured \<Rightarrow> 'r globals \<Rightarrow> 'r globals" where
  "capture pkt s =
     (case pcap_filename s of
        None \<Rightarrow> s
      | Some name \<Rightarrow> if name = [] then s else s\<lparr>pcap := pcap s @ [pkt]\<rparr>)"

definition py_print :: "'r printed \<Rightarrow> 'r globals \<Rightarrow> 'r globals" where
  "py_print line s = s\<lparr>stdout := stdout s @ [line]\<rparr>"

section \<open>The sequence allocator: \<open>get_sequence_num\<close>\<close>

text \<open>
  \<^verbatim>\<open>
  def get_sequence_num(reset=False):
      thread_lock.acquire()
      global sequence_number
      if reset:
          sequence_number = 0
      sequence_number += 1
      thread_lock.release()
      return sequence_number
  \<close>
  Run by one thread with the lock free, the call acquires and releases the lock and
  returns the value it has just written. The interleaving of two callers is modelled
  further below.
\<close>

definition get_sequence_num :: "bool \<Rightarrow> 'r globals \<Rightarrow> int \<times> 'r globals" where
  "get_sequence_num reset s =
     (let s1 = (if reset then s\<lparr>sequence_number := 0\<rparr> else s);
          s2 = s1\<lparr>sequence_number := sequence_number s1 + 1\<rparr>
      in (sequence_number s2, s2))"

section \<open>Crafting the association packets\<close>

definition craft_fseid :: "int \<Rightarrow> string \<Rightarrow> 'r ie" where
  "craft_fseid seid address = IE_FSEID seid address"

definition empty_header :: pfcp_header where
  "empty_header =
     \<lparr>hdr_version = None, hdr_S = None, hdr_message_type = None, hdr_seid = None,
      hdr_seq = None\<rparr>"

definition craft_pfcp_association_setup_packet :: "'r globals \<Rightarrow> 'r packet" where
  "craft_pfcp_association_setup_packet s =
     \<lparr>ip_src = our_addr s, ip_dst = peer_addr s, header = empty_header,
      message = PFCPAssociationSetupRequest, message_version = Some 1,
      IE_list = [IE_NodeId (our_addr s), IE_RecoveryTimeStamp]\<rparr>"

definition craft_pfcp_association_release_packet :: "'r globals \<Rightarrow> 'r packet" where
  "craft_pfcp_association_release_packet s =
     \<lparr>ip_src = our_addr s, ip_dst = peer_addr s, header = empty_header,
      message = PFCPAssociationReleaseRequest, message_version = Some 1,
      IE_list = [IE_NodeId (our_addr s)]\<rparr>"

section \<open>The correlator: \<open>send_recv_pfcp\<close>\<close>

text \<open>
  \<^verbatim>\<open>
  def send_recv_pfcp(pkt, expected_response_type, verbosity=0):
      global peer_seid
      if verbosity > 1:
          pkt.show()
      capture(pkt)
      scapy.send(pkt, verbose=verbosity)
      data, addr = sock.recvfrom(1024)
      if verbosity > 0:
          print("Received message: %s" % data)
      response = pfcp.PFCP()
      response.dissect(data)
      capture(response)
      if verbosity > 1:
          response.show()
      if response.message_type == expected_response_type:
          for ie in response.payload.IE_list:
              if verbosity > 0:
                  if ie.ie_type == 60: print("decoded node type : ", ie)
                  elif ie.ie_type == 19: print("decoded cause : ", ie.cause)
                  elif ie.ie_type == 57:
                      print("FSEID recieved ")
                      print("FSEID seid {} and ip address {} ", ie.seid, ie.ipv4)
                  elif ie.ie_type == 96: print("recovery timestamp received")
                  elif ie.ie_type == 116: print("decoded ip resource information received")
              if ie.ie_type == 57:
                  peer_seid = int(ie.seid)
      else:
          print("ERROR: Expected response of type %s but received %s" %
                (pfcp.PFCPmessageType[expected_response_type],
                 pfcp.PFCPmessageType[response.message_type]))
  \<close>
  The receive has no timeout: with an empty \<open>inbox\<close> the call never returns. The
  codec dissects a datagram that carries no information element without a message layer:
  \<open>response.payload\<close> is then its \<open>NoPayload\<close>, which has no \<open>IE_list\<close>, and the \<open>for\<close>
  statement raises \<open>AttributeError\<close>. A decoded response with an empty list of elements
  stands for such a datagram.
\<close>

definition print_ie :: "int \<Rightarrow> response_ie \<Rightarrow> 'r globals \<Rightarrow> 'r globals" where
  "print_ie verbosity ie s =
     (if verbosity > 0 then
        (if ie_type ie = 60 then py_print (Print_ie ''decoded node type : '' ie) s
         else if ie_type ie = 19 then py_print (Print_ie ''decoded cause : '' ie) s
         else if ie_type ie = 57 then
           py_print (Print_ie ''FSEID seid {} and ip address {} '' ie)
             (py_print (Print ''FSEID recieved '') s)
         else if ie_type ie = 96 then py_print (Print ''recovery timestamp received'') s
         else if ie_type ie = 116 then
           py_print (Print ''decoded ip resource information received'') s
         else s)
      else s)"

definition handle_ie :: "int \<Rightarrow> 'r globals \<Rightarrow> response_ie \<Rightarrow> 'r globals" where
  "handle_ie verbosity s ie =
     (let s1 = print_ie verbosity ie s
      in if ie_type ie = 57 then s1\<lparr>peer_seid := Some (ie_seid ie)\<rparr> else s1)"

definition send_recv_pfcp ::
  "message_types \<Rightarrow> 'r packet \<Rightarrow> int \<Rightarrow> int \<Rightarrow> 'r globals \<Rightarrow> unit result \<times> 'r globals" where
  "send_recv_pfcp tbl pkt expected_response_type verbosity s =
     (let s1 = (if verbosity > 1 then py_print (Show_packet pkt) s else s);
          s2 = capture (Captured_packet pkt) s1;
          s3 = s2\<lparr>wire := wire s2 @ [pkt]\<rparr>
      in case inbox s3 of
           [] \<Rightarrow> (Blocked, s3)
         | response # rest \<Rightarrow>
             (let s4 = s3\<lparr>inbox := rest\<rparr>;
                  s5 = (if verbosity > 0 then py_print (Print_received response) s4 else s4);
                  s6 = capture (Captured_response response) s5;
                  s7 = (if verbosity > 1 then py_print (Show_response response) s6 else s6)
              in if message_type response = expected_response_type then
                   (case response_IE_list response of
                      [] \<Rightarrow> (Raise (AttributeError ''IE_list''), s7)
                    | ie # ies \<Rightarrow> (Return (), foldl (handle_ie verbosity) s7 (ie # ies)))
                 else
                   and_then (lift (PFCPmessageType tbl expected_response_type))
                     (\<lambda>expected_name.
                        and_then (lift (PFCPmessageType tbl (message_type response)))
                          (\<lambda>received_name s.
                             (Return (),
                              py_print
                                (Print (''ERROR: Expected response of type ''
                                          @ expected_name @ '' but received ''
                                          @ received_name))
                                s)))
                     s7))"

section \<open>The association controller\<close>

text \<open>
  The handlers take the parsed command line \<open>args\<close>. The functions read \<open>args.ue_count\<close>,
  while the parser of \<open>handle_user_input\<close> declares \<open>--session-count\<close> and no
  \<open>ue_count\<close>: \<open>ue_count = None\<close> is a namespace without that attribute, whose read raises
  \<open>AttributeError\<close>. An \<open>IPv4Address\<close> is the integer \<open>ip2int\<close> gives; an \<open>IPv4Network\<close>
  is its network address and prefix length (at most 32).
\<close>

record ipv4network =
  network_address :: int
  prefixlen :: nat

record arguments =
  buffer :: bool
  session_count :: int
  ue_count :: "int option"
  ue_pool :: ipv4network
  s1u_addr :: int
  enb_addr :: int
  seid_base :: int
  teid_base :: int
  pdr_base :: int
  far_base :: int
  urr_base :: int
  qer_base :: int
  pdr_precedence :: int

text \<open>
  \<^verbatim>\<open>
  def setup_pfcp_association(args):
      get_sequence_num(reset=True)  # zero out the sequence number
      global association_established
      pkt = craft_pfcp_association_setup_packet()
      send_recv_pfcp(pkt, MSG_TYPES["association_setup_response"])
      association_established = True  # signal the heartbeat thread to start sending

  def teardown_pfcp_association(args):
      global association_established
      pkt = craft_pfcp_association_release_packet()
      send_recv_pfcp(pkt, MSG_TYPES["association_release_response"])
      association_established = False

  def interrupt_association(args):
      global association_established
      association_established = False  # stop the heartbeat thread
      active_sessions.clear()
  \<close>
\<close>

definition setup_pfcp_association ::
  "message_types \<Rightarrow> arguments \<Rightarrow> 'r globals \<Rightarrow> unit result \<times> 'r globals" where
  "setup_pfcp_association tbl args s =
     (let s1 = snd (get_sequence_num True s);
          pkt = craft_pfcp_association_setup_packet s1
      in and_then (lift (MSG_TYPES tbl ''association_setup_response''))
           (\<lambda>expected. and_then (send_recv_pfcp tbl pkt expected 0)
              (\<lambda>_ s2. (Return (), s2\<lparr>association_established := True\<rparr>)))
           s1)"

definition teardown_pfcp_association ::
  "message_types \<Rightarrow> arguments \<Rightarrow> 'r globals \<Rightarrow> unit result \<times> 'r globals" where
  "teardown_pfcp_association tbl args s =
     (let pkt = craft_pfcp_association_release_packet s
      in and_then (lift (MSG_TYPES tbl ''association_release_response''))
           (\<lambda>expected. and_then (send_recv_pfcp tbl pkt expected 0)
              (\<lambda>_ s2. (Return (), s2\<lparr>association_established := False\<rparr>)))
           s)"

definition interrupt_association :: "arguments \<Rightarrow> 'r globals \<Rightarrow> unit result \<times> 'r globals" where
  "interrupt_association args s =
     (Return (), s\<lparr>association_established := False, active_sessions := Map.empty\<rparr>)"

section \<open>Assembling the rules of a request: \<open>add_rules_to_request\<close>\<close>

text \<open>
  \<^verbatim>\<open>
  def get_addresses_from_prefix(prefix, count):
      if count >= 2 ** (prefix.max_prefixlen - prefix.prefixlen):
          raise Exception("trying to generate more addresses than a prefix contains!")
      base_addr = ip2int(prefix.network_address) + 1
      offset = 0
      while offset < count:
          yield IPv4Address(base_addr + offset)
          offset += 1
  \<close>
  A generator: nothing runs until the first \<open>next\<close>. \<open>IPv4Address\<close> refuses an integer
  outside 32 bits.
\<close>

datatype addr_gen = Not_started ipv4network int | Yielding int int int | Exhausted

definition get_addresses_from_prefix :: "ipv4network \<Rightarrow> int \<Rightarrow> addr_gen" where
  "get_addresses_from_prefix prefix count = Not_started prefix count"

definition yield_address :: "int \<Rightarrow> int \<Rightarrow> int \<Rightarrow> (error + int) \<times> addr_gen" where
  "yield_address base_addr count offset =
     (if offset < count then
        (if 0 \<le> base_addr + offset \<and> base_addr + offset < 2 ^ 32
         then (Inr (base_addr + offset), Yielding base_addr count offset)
         else (Inl AddressValueError, Exhausted))
      else (Inl StopIteration, Exhausted))"

fun next_address :: "addr_gen \<Rightarrow> (error + int) \<times> addr_gen" where
  "next_address (Not_started prefix count) =
     (if count \<ge> 2 ^ (32 - prefixlen prefix)
      then (Inl (PyException ''trying to generate more addresses than a prefix contains!''),
            Exhausted)
      else yield_address (network_address prefix + 1) count 0)"
| "next_address (Yielding base_addr count offset) = yield_address base_addr count (offset + 1)"
| "next_address Exhausted = (Inl StopIteration, Exhausted)"

text \<open>\<open>iter(range(a, b))\<close> is the list of its values; \<open>next\<close> takes the head.\<close>

definition range_iter :: "int \<Rightarrow> int \<Rightarrow> int list" where
  "range_iter a b = [a..b - 1]"

record gens =
  seid_gen :: "int list"
  ue_addr_gen :: addr_gen
  teid_gen :: "int list"
  far_id_gen :: "int list"
  pdr_id_gen :: "int list"
  urr_id_gen :: "int list"
  qer_id_gen :: "int list"

definition next_int ::
  "(gens \<Rightarrow> int list) \<Rightarrow> (int list \<Rightarrow> gens \<Rightarrow> gens) \<Rightarrow> gens \<Rightarrow> int result \<times> gens" where
  "next_int gen put g =
     (case gen g of [] \<Rightarrow> (Raise StopIteration, g) | x # xs \<Rightarrow> (Return x, put xs g))"

definition next_ue_addr :: "gens \<Rightarrow> int result \<times> gens" where
  "next_ue_addr g =
     (case next_address (ue_addr_gen g) of
        (Inl e, a) \<Rightarrow> (Raise e, g\<lparr>ue_addr_gen := a\<rparr>)
      | (Inr x, a) \<Rightarrow> (Return x, g\<lparr>ue_addr_gen := a\<rparr>))"

text \<open>
  \<^verbatim>\<open>
      rule_count = args.ue_count * 2
      ue_addr_gen = get_addresses_from_prefix(args.ue_pool, args.ue_count)
      seid_gen = iter(range(args.seid_base, args.seid_base + rule_count))
      teid_gen = iter(range(args.teid_base, args.teid_base + rule_count))
      far_id_gen = iter(range(args.far_base, args.far_base + rule_count))
      pdr_id_gen = iter(range(args.pdr_base, args.pdr_base + rule_count))
      urr_id_gen = iter(range(args.urr_base, args.urr_base + rule_count))
      qer_id_gen = iter(range(args.urr_base, args.urr_base + rule_count))
  \<close>
\<close>

definition make_gens :: "arguments \<Rightarrow> int \<Rightarrow> gens" where
  "make_gens args count =
     (let rule_count = count * 2
      in \<lparr>seid_gen = range_iter (seid_base args) (seid_base args + rule_count),
          ue_addr_gen = get_addresses_from_prefix (ue_pool args) count,
          teid_gen = range_iter (teid_base args) (teid_base args + rule_count),
          far_id_gen = range_iter (far_base args) (far_base args + rule_count),
          pdr_id_gen = range_iter (pdr_base args) (pdr_base args + rule_count),
          urr_id_gen = range_iter (urr_base args) (urr_base args + rule_count),
          qer_id_gen = range_iter (urr_base args) (urr_base args + rule_count)\<rparr>)"

text \<open>
  \<^verbatim>\<open>
          seid = next(seid_gen)
          ue_addr = next(ue_addr_gen)
          teid1 = next(teid_gen);      teid2 = next(teid_gen)
          pdr_id1 = next(pdr_id_gen);  pdr_id2 = next(pdr_id_gen)
          far_id1 = next(far_id_gen);  far_id2 = next(far_id_gen)
          urr_id1 = next(urr_id_gen);  urr_id2 = next(urr_id_gen)
          qer_id1 = next(qer_id_gen);  qer_id2 = next(qer_id_gen)
  \<close>
\<close>

record ids =
  seid :: int
  ue_addr :: int
  teid1 :: int
  teid2 :: int
  pdr_id1 :: int
  pdr_id2 :: int
  far_id1 :: int
  far_id2 :: int
  urr_id1 :: int
  urr_id2 :: int
  qer_id1 :: int
  qer_id2 :: int

definition draw_ids :: "gens \<Rightarrow> ids result \<times> gens" where
  "draw_ids =
     and_then (next_int seid_gen (\<lambda>xs g. g\<lparr>seid_gen := xs\<rparr>)) (\<lambda>v_seid.
     and_then next_ue_addr (\<lambda>v_ue_addr.
     and_then (next_int teid_gen (\<lambda>xs g. g\<lparr>teid_gen := xs\<rparr>)) (\<lambda>v_teid1.
     and_then (next_int teid_gen (\<lambda>xs g. g\<lparr>teid_gen := xs\<rparr>)) (\<lambda>v_teid2.
     and_then (next_int pdr_id_gen (\<lambda>xs g. g\<lparr>pdr_id_gen := xs\<rparr>)) (\<lambda>v_pdr_id1.
     and_then (next_int pdr_id_gen (\<lambda>xs g. g\<lparr>pdr_id_gen := xs\<rparr>)) (\<lambda>v_pdr_id2.
     and_then (next_int far_id_gen (\<lambda>xs g. g\<lparr>far_id_gen := xs\<rparr>)) (\<lambda>v_far_id1.
     and_then (next_int far_id_gen (\<lambda>xs g. g\<lparr>far_id_gen := xs\<rparr>)) (\<lambda>v_far_id2.
     and_then (next_int urr_id_gen (\<lambda>xs g. g\<lparr>urr_id_gen := xs\<rparr>)) (\<lambda>v_urr_id1.
     and_then (next_int urr_id_gen (\<lambda>xs g. g\<lparr>urr_id_gen := xs\<rparr>)) (\<lambda>v_urr_id2.
     and_then (next_int qer_id_gen (\<lambda>xs g. g\<lparr>qer_id_gen := xs\<rparr>)) (\<lambda>v_qer_id1.
     and_then (next_int qer_id_gen (\<lambda>xs g. g\<lparr>qer_id_gen := xs\<rparr>)) (\<lambda>v_qer_id2.
     ret \<lparr>seid = v_seid, ue_addr = v_ue_addr, teid1 = v_teid1, teid2 = v_teid2,
          pdr_id1 = v_pdr_id1, pdr_id2 = v_pdr_id2, far_id1 = v_far_id1, far_id2 = v_far_id2,
          urr_id1 = v_urr_id1, urr_id2 = v_urr_id2,
          qer_id1 = v_qer_id1, qer_id2 = v_qer_id2\<rparr>))))))))))))"

text \<open>
  The four \<open>craft_*\<close> functions build the codec's rule elements. Their calls in
  \<open>add_rules_to_request\<close> pass the keyword \<open>update\<close>, which none of the definitions
  accepts, and omit their first parameter \<open>session\<close>: as the file stands each call raises
  \<open>TypeError\<close> (\<open>crafts_as_written\<close>). The model takes what the calls do as a parameter,
  a function of the keyword arguments each call site passes (\<open>None\<close> for an argument a
  call leaves out), so that what is proved holds of the calls as written and of any
  \<open>craft_*\<close> that accepts them.
\<close>

record pdr_kwargs =
  pdr_kw_id :: int
  pdr_kw_far_id :: int
  pdr_kw_qer_id :: int
  pdr_kw_urr_id :: int
  pdr_kw_src_iface :: int
  pdr_kw_from_tunnel :: bool
  pdr_kw_teid :: "int option"
  pdr_kw_tunnel_dst :: "int option"
  pdr_kw_ue_addr :: "int option"
  pdr_kw_update :: bool
  pdr_kw_precedence :: "int option"

record far_kwargs =
  far_kw_id :: int
  far_kw_update :: bool
  far_kw_forward_flag :: bool
  far_kw_dst_iface :: int
  far_kw_tunnel :: bool
  far_kw_tunnel_dst :: "int option"
  far_kw_teid :: "int option"
  far_kw_buffer_flag :: "bool option"

record qer_kwargs =
  qer_kw_id :: int
  qer_kw_update :: bool

record urr_kwargs =
  urr_kw_id :: int
  urr_kw_quota :: int
  urr_kw_threshold :: int
  urr_kw_update :: bool

record 'r crafts =
  craft_pdr :: "pdr_kwargs \<Rightarrow> error + 'r"
  craft_far :: "far_kwargs \<Rightarrow> error + 'r"
  craft_qer :: "qer_kwargs \<Rightarrow> error + 'r"
  craft_urr :: "urr_kwargs \<Rightarrow> error + 'r"

definition crafts_as_written :: "'r crafts" where
  "crafts_as_written =
     \<lparr>craft_pdr = (\<lambda>_. Inl (TypeError ''craft_pdr'')),
      craft_far = (\<lambda>_. Inl (TypeError ''craft_far'')),
      craft_qer = (\<lambda>_. Inl (TypeError ''craft_qer'')),
      craft_urr = (\<lambda>_. Inl (TypeError ''craft_urr''))\<rparr>"

text \<open>
  Each rule is offered to the request by
  \<^verbatim>\<open>
      if force_add or not already_sent(rule_id, rule, sent_xxx):
          request.IE_list.append(rule)
  \<close>
  with \<open>sent_xxx\<close> one of the four global caches. With \<open>force_add\<close> the \<open>or\<close> does not
  evaluate \<open>already_sent\<close>: the cache is neither read nor written.
\<close>

datatype rule_kind = PDR | FAR | URR | QER

definition sent_rules :: "rule_kind \<Rightarrow> 'r globals \<Rightarrow> (int \<rightharpoonup> 'r) option" where
  "sent_rules kind s =
     (case kind of PDR \<Rightarrow> sent_pdrs s | FAR \<Rightarrow> sent_fars s | URR \<Rightarrow> sent_urrs s
      | QER \<Rightarrow> sent_qers s)"

definition set_sent_rules :: "rule_kind \<Rightarrow> (int \<rightharpoonup> 'r) option \<Rightarrow> 'r globals \<Rightarrow> 'r globals" where
  "set_sent_rules kind m s =
     (case kind of PDR \<Rightarrow> s\<lparr>sent_pdrs := m\<rparr> | FAR \<Rightarrow> s\<lparr>sent_fars := m\<rparr>
      | URR \<Rightarrow> s\<lparr>sent_urrs := m\<rparr> | QER \<Rightarrow> s\<lparr>sent_qers := m\<rparr>)"

definition sent_rules_name :: "rule_kind \<Rightarrow> string" where
  "sent_rules_name kind =
     (case kind of PDR \<Rightarrow> ''sent_pdrs'' | FAR \<Rightarrow> ''sent_fars'' | URR \<Rightarrow> ''sent_urrs''
      | QER \<Rightarrow> ''sent_qers'')"

definition append_unless_sent ::
  "bool \<Rightarrow> rule_kind \<Rightarrow> int \<Rightarrow> 'r \<Rightarrow> 'r ie list \<Rightarrow> 'r globals \<Rightarrow> 'r ie list result \<times> 'r globals" where
  "append_unless_sent force_add kind rule_id rule ies s =
     (if force_add then (Return (ies @ [IE_Rule rule]), s)
      else case sent_rules kind s of
             None \<Rightarrow> (Raise (NameError (sent_rules_name kind)), s)
           | Some sent_rule_map \<Rightarrow>
               (let (sent, sent_rule_map') = already_sent rule_id rule sent_rule_map
                in (Return (if sent then ies else ies @ [IE_Rule rule]),
                    set_sent_rules kind (Some sent_rule_map') s)))"

text \<open>
  \<^verbatim>\<open>
          if add_pdrs:
              pdr1 = craft_pdr(id=pdr_id1, far_id=far_id1, qer_id=qer_id1, urr_id=urr_id1,
                               src_iface=IFACE_ACCESS, from_tunnel=True, teid=teid1,
                               tunnel_dst=args.s1u_addr, update=update,
                               precedence=args.pdr_precedence)
              if force_add or not already_sent(pdr_id1, pdr1, sent_pdrs):
                  request.IE_list.append(pdr1)
              pdr2 = craft_pdr(id=pdr_id2, far_id=far_id2, qer_id=qer_id2, urr_id=urr_id2,
                               src_iface=IFACE_CORE, from_tunnel=False, ue_addr=ue_addr,
                               update=update)
              if force_add or not already_sent(pdr_id2, pdr2, sent_pdrs):
                  request.IE_list.append(pdr2)
  \<close>
\<close>

definition add_pdr_pair ::
  "'r crafts \<Rightarrow> arguments \<Rightarrow> bool \<Rightarrow> bool \<Rightarrow> ids \<Rightarrow> 'r ie list \<Rightarrow> 'r globals
     \<Rightarrow> 'r ie list result \<times> 'r globals" where
  "add_pdr_pair crafts args update force_add i ies =
     and_then (lift (craft_pdr crafts
        \<lparr>pdr_kw_id = pdr_id1 i, pdr_kw_far_id = far_id1 i, pdr_kw_qer_id = qer_id1 i,
         pdr_kw_urr_id = urr_id1 i, pdr_kw_src_iface = IFACE_ACCESS,
         pdr_kw_from_tunnel = True, pdr_kw_teid = Some (teid1 i),
         pdr_kw_tunnel_dst = Some (s1u_addr args), pdr_kw_ue_addr = None,
         pdr_kw_update = update, pdr_kw_precedence = Some (pdr_precedence args)\<rparr>))
     (\<lambda>pdr1. and_then (append_unless_sent force_add PDR (pdr_id1 i) pdr1 ies)
     (\<lambda>ies1. and_then (lift (craft_pdr crafts
        \<lparr>pdr_kw_id = pdr_id2 i, pdr_kw_far_id = far_id2 i, pdr_kw_qer_id = qer_id2 i,
         pdr_kw_urr_id = urr_id2 i, pdr_kw_src_iface = IFACE_CORE,
         pdr_kw_from_tunnel = False, pdr_kw_teid = None,
         pdr_kw_tunnel_dst = None, pdr_kw_ue_addr = Some (ue_addr i),
         pdr_kw_update = update, pdr_kw_precedence = None\<rparr>))
     (\<lambda>pdr2. append_unless_sent force_add PDR (pdr_id2 i) pdr2 ies1)))"

text \<open>
  \<^verbatim>\<open>
          if add_fars:
              far1 = craft_far(id=far_id1, update=update, forward_flag=True,
                               dst_iface=IFACE_CORE, tunnel=False)
              if force_add or not already_sent(far_id1, far1, sent_fars):
                  request.IE_list.append(far1)
              far2 = craft_far(id=far_id2, update=update, forward_flag=True,
                               dst_iface=IFACE_ACCESS, tunnel=update,
                               tunnel_dst=args.enb_addr, teid=teid2, buffer_flag=args.buffer)
              if force_add or not already_sent(far_id2, far2, sent_fars):
                  request.IE_list.append(far2)
  \<close>
\<close>

definition add_far_pair ::
  "'r crafts \<Rightarrow> arguments \<Rightarrow> bool \<Rightarrow> bool \<Rightarrow> ids \<Rightarrow> 'r ie list \<Rightarrow> 'r globals
     \<Rightarrow> 'r ie list result \<times> 'r globals" where
  "add_far_pair crafts args update force_add i ies =
     and_then (lift (craft_far crafts
        \<lparr>far_kw_id = far_id1 i, far_kw_update = update, far_kw_forward_flag = True,
         far_kw_dst_iface = IFACE_CORE, far_kw_tunnel = False, far_kw_tunnel_dst = None,
         far_kw_teid = None, far_kw_buffer_flag = None\<rparr>))
     (\<lambda>far1. and_then (append_unless_sent force_add FAR (far_id1 i) far1 ies)
     (\<lambda>ies1. and_then (lift (craft_far crafts
        \<lparr>far_kw_id = far_id2 i, far_kw_update = update, far_kw_forward_flag = True,
         far_kw_dst_iface = IFACE_ACCESS, far_kw_tunnel = update,
         far_kw_tunnel_dst = Some (enb_addr args), far_kw_teid = Some (teid2 i),
         far_kw_buffer_flag = Some (buffer args)\<rparr>))
     (\<lambda>far2. append_unless_sent force_add FAR (far_id2 i) far2 ies1)))"

text \<open>
  \<^verbatim>\<open>
          if add_qers:
              qer1 = craft_qer(id=qer_id1, update=update)
              if force_add or not already_sent(qer_id1, qer1, sent_qers):
                  request.IE_list.append(qer1)
              qer2 = craft_qer(id=qer_id2, update=update)
              if force_add or not already_sent(qer_id2, qer2, sent_qers):
                  request.IE_list.append(qer2)
          if add_urrs:
              urr1 = craft_urr(id=urr_id1, quota=100000, threshold=40000, update=update)
              if force_add or not already_sent(urr_id1, urr1, sent_urrs):
                  request.IE_list.append(urr1)
              urr2 = craft_urr(id=urr_id2, quota=100000, threshold=50000, update=update)
              if force_add or not already_sent(urr_id2, urr2, sent_urrs):
                  request.IE_list.append(urr2)
  \<close>
\<close>

definition add_qer_pair ::
  "'r crafts \<Rightarrow> bool \<Rightarrow> bool \<Rightarrow> ids \<Rightarrow> 'r ie list \<Rightarrow> 'r globals
     \<Rightarrow> 'r ie list result \<times> 'r globals" where
  "add_qer_pair crafts update force_add i ies =
     and_then (lift (craft_qer crafts \<lparr>qer_kw_id = qer_id1 i, qer_kw_update = update\<rparr>))
     (\<lambda>qer1. and_then (append_unless_sent force_add QER (qer_id1 i) qer1 ies)
     (\<lambda>ies1. and_then
        (lift (craft_qer crafts \<lparr>qer_kw_id = qer_id2 i, qer_kw_update = update\<rparr>))
     (\<lambda>qer2. append_unless_sent force_add QER (qer_id2 i) qer2 ies1)))"

definition add_urr_pair ::
  "'r crafts \<Rightarrow> bool \<Rightarrow> bool \<Rightarrow> ids \<Rightarrow> 'r ie list \<Rightarrow> 'r globals
     \<Rightarrow> 'r ie list result \<times> 'r globals" where
  "add_urr_pair crafts update force_add i ies =
     and_then (lift (craft_urr crafts
        \<lparr>urr_kw_id = urr_id1 i, urr_kw_quota = 100000, urr_kw_threshold = 40000,
         urr_kw_update = update\<rparr>))
     (\<lambda>urr1. and_then (append_unless_sent force_add URR (urr_id1 i) urr1 ies)
     (\<lambda>ies1. and_then (lift (craft_urr crafts
        \<lparr>urr_kw_id = urr_id2 i, urr_kw_quota = 100000, urr_kw_threshold = 50000,
         urr_kw_update = update\<rparr>))
     (\<lambda>urr2. append_unless_sent force_add URR (urr_id2 i) urr2 ies1)))"

definition add_ue_rules ::
  "'r crafts \<Rightarrow> arguments \<Rightarrow> bool \<Rightarrow> bool \<Rightarrow> bool \<Rightarrow> bool \<Rightarrow> bool \<Rightarrow> bool \<Rightarrow> ids
     \<Rightarrow> 'r ie list \<Rightarrow> 'r globals \<Rightarrow> 'r ie list result \<times> 'r globals" where
  "add_ue_rules crafts args update add_pdrs add_fars add_urrs add_qers force_add i ies =
     and_then (if add_pdrs then add_pdr_pair crafts args update force_add i ies else ret ies)
     (\<lambda>ies1. and_then
        (if add_fars then add_far_pair crafts args update force_add i ies1 else ret ies1)
     (\<lambda>ies2. and_then
        (if add_qers then add_qer_pair crafts update force_add i ies2 else ret ies2)
     (\<lambda>ies3. if add_urrs then add_urr_pair crafts update force_add i ies3 else ret ies3)))"

text \<open>
  The loop \<open>for ue_index in range(args.ue_count)\<close>: one round per UE, each drawing its
  identifiers from the generators and then offering its rules. The request's \<open>IE_list\<close> is
  mutated in place, also when a later round raises; the model returns the list only when
  the loop ends, which is when the caller goes on to use it.
\<close>

fun add_rules_loop ::
  "'r crafts \<Rightarrow> arguments \<Rightarrow> bool \<Rightarrow> bool \<Rightarrow> bool \<Rightarrow> bool \<Rightarrow> bool \<Rightarrow> bool \<Rightarrow> nat \<Rightarrow> gens
     \<Rightarrow> 'r ie list \<Rightarrow> 'r globals \<Rightarrow> 'r ie list result \<times> 'r globals" where
  "add_rules_loop crafts args update add_pdrs add_fars add_urrs add_qers force_add 0 g ies s =
     (Return ies, s)"
| "add_rules_loop crafts args update add_pdrs add_fars add_urrs add_qers force_add (Suc n) g
     ies s =
     (case draw_ids g of
        (Return i, g') \<Rightarrow>
          and_then
            (add_ue_rules crafts args update add_pdrs add_fars add_urrs add_qers force_add i
               ies)
            (add_rules_loop crafts args update add_pdrs add_fars add_urrs add_qers force_add n
               g')
            s
      | (Raise e, g') \<Rightarrow> (Raise e, s)
      | (Blocked, g') \<Rightarrow> (Blocked, s))"

definition add_rules_to_request ::
  "'r crafts \<Rightarrow> arguments \<Rightarrow> 'r ie list \<Rightarrow> bool \<Rightarrow> bool \<Rightarrow> bool \<Rightarrow> bool \<Rightarrow> bool \<Rightarrow> bool
     \<Rightarrow> 'r globals \<Rightarrow> 'r ie list result \<times> 'r globals" where
  "add_rules_to_request crafts args ies update add_pdrs add_fars add_urrs add_qers force_add s =
     (case ue_count args of
        None \<Rightarrow> (Raise (AttributeError ''ue_count''), s)
      | Some count \<Rightarrow>
          add_rules_loop crafts args update add_pdrs add_fars add_urrs add_qers force_add
            (nat count) (make_gens args count) ies s)"

section \<open>Session requests\<close>

text \<open>
  \<^verbatim>\<open>
  def craft_pfcp_session_est_packet(args):
      pfcp_header = pfcp.PFCP()
      pfcp_header.version = 1
      pfcp_header.S = 1
      pfcp_header.message_type = MSG_TYPES["session_establishment_request"]
      pfcp_header.seid = 0
      pfcp_header.seq = get_sequence_num()
      establishment_request = pfcp.PFCPSessionEstablishmentRequest()
      nodeid = pfcp.IE_NodeId(); nodeid.ipv4 = our_addr
      establishment_request.IE_list.append(nodeid)
      fseid = craft_fseid(our_seid, our_addr)
      establishment_request.IE_list.append(fseid)
      pdn_type = pfcp.IE_PDNType()
      establishment_request.IE_list.append(pdn_type)
      add_rules_to_request(args=args, request=establishment_request, update=False,
                           add_pdrs=True, add_fars=True, add_urrs=True, add_qers=True)
      return IP(src=our_addr, dst=peer_addr) / UDP() / pfcp_header / establishment_request
  \<close>
\<close>

definition read_our_seid :: "'r globals \<Rightarrow> int result \<times> 'r globals" where
  "read_our_seid s =
     (case our_seid s of None \<Rightarrow> (Raise (NameError ''our_seid''), s) | Some v \<Rightarrow> (Return v, s))"

definition read_peer_seid :: "'r globals \<Rightarrow> int result \<times> 'r globals" where
  "read_peer_seid s =
     (case peer_seid s of None \<Rightarrow> (Raise (NameError ''peer_seid''), s)
      | Some v \<Rightarrow> (Return v, s))"

definition next_sequence_num :: "'r globals \<Rightarrow> int result \<times> 'r globals" where
  "next_sequence_num s = (case get_sequence_num False s of (n, s') \<Rightarrow> (Return n, s'))"

definition craft_pfcp_session_est_packet ::
  "message_types \<Rightarrow> 'r crafts \<Rightarrow> arguments \<Rightarrow> 'r globals \<Rightarrow> 'r packet result \<times> 'r globals" where
  "craft_pfcp_session_est_packet tbl crafts args =
     and_then (lift (MSG_TYPES tbl ''session_establishment_request'')) (\<lambda>mtype.
     and_then next_sequence_num (\<lambda>seq.
     and_then read_our_seid (\<lambda>v_our_seid s.
       and_then
         (add_rules_to_request crafts args
            [IE_NodeId (our_addr s), craft_fseid v_our_seid (our_addr s), IE_PDNType]
            False True True True True False)
         (\<lambda>ies s'.
            (Return
               \<lparr>ip_src = our_addr s', ip_dst = peer_addr s',
                header = \<lparr>hdr_version = Some 1, hdr_S = Some 1, hdr_message_type = Some mtype,
                          hdr_seid = Some 0, hdr_seq = Some seq\<rparr>,
                message = PFCPSessionEstablishmentRequest, message_version = None,
                IE_list = ies\<rparr>, s'))
         s)))"

text \<open>
  \<^verbatim>\<open>
  def craft_pfcp_session_modify_packet(args):
      pfcp_header = pfcp.PFCP()
      pfcp_header.version = 1
      pfcp_header.S = 1
      pfcp_header.message_type = MSG_TYPES["session_modification_request"]
      if peer_seid == -1:
          raise Exception("Peer SEID has not yet been received.")
      pfcp_header.seid = peer_seid
      pfcp_header.seq = get_sequence_num()
      modification_request = pfcp.PFCPSessionModificationRequest()
      fseid = craft_fseid(our_seid, our_addr)
      modification_request.IE_list.append(fseid)
      add_rules_to_request(args, modification_request, update=True, add_fars=True)
      return IP(src=our_addr, dst=peer_addr) / UDP() / pfcp_header / modification_request
  \<close>
\<close>

definition craft_pfcp_session_modify_packet ::
  "message_types \<Rightarrow> 'r crafts \<Rightarrow> arguments \<Rightarrow> 'r globals \<Rightarrow> 'r packet result \<times> 'r globals" where
  "craft_pfcp_session_modify_packet tbl crafts args =
     and_then (lift (MSG_TYPES tbl ''session_modification_request'')) (\<lambda>mtype.
     and_then read_peer_seid (\<lambda>v_peer_seid.
     if v_peer_seid = - 1 then throw (PyException ''Peer SEID has not yet been received.'')
     else
     and_then next_sequence_num (\<lambda>seq.
     and_then read_our_seid (\<lambda>v_our_seid s.
       and_then
         (add_rules_to_request crafts args [craft_fseid v_our_seid (our_addr s)]
            True False True False False False)
         (\<lambda>ies s'.
            (Return
               \<lparr>ip_src = our_addr s', ip_dst = peer_addr s',
                header = \<lparr>hdr_version = Some 1, hdr_S = Some 1, hdr_message_type = Some mtype,
                          hdr_seid = Some v_peer_seid, hdr_seq = Some seq\<rparr>,
                message = PFCPSessionModificationRequest, message_version = None,
                IE_list = ies\<rparr>, s'))
         s))))"

text \<open>
  \<^verbatim>\<open>
  def craft_pfcp_session_delete_packet(session):
      pfcp_header = pfcp.PFCP()
      pfcp_header.version = 1
      pfcp_header.S = 1
      pfcp_header.message_type = MSG_TYPES["session_deletion_request"]
      if session.peer_seid is None:
          raise Exception("Peer SEID has not yet been received.")
      pfcp_header.seid = session.peer_seid
      pfcp_header.seq = get_sequence_num()
      deletion_request = pfcp.PFCPSessionDeletionRequest()
      fseid = craft_fseid(session.our_seid, our_addr)
      deletion_request.IE_list.append(fseid)
      delete_pkt = IP(src=our_addr, dst=peer_addr) / UDP() / pfcp_header / deletion_request
      return delete_pkt
  \<close>
\<close>

definition craft_pfcp_session_delete_packet ::
  "message_types \<Rightarrow> 'r Session \<Rightarrow> 'r globals \<Rightarrow> 'r packet result \<times> 'r globals" where
  "craft_pfcp_session_delete_packet tbl session =
     and_then (lift (MSG_TYPES tbl ''session_deletion_request'')) (\<lambda>mtype.
     case session_peer_seid session of
       None \<Rightarrow> throw (PyException ''Peer SEID has not yet been received.'')
     | Some v_peer_seid \<Rightarrow>
         and_then next_sequence_num (\<lambda>seq s.
           (Return
              \<lparr>ip_src = our_addr s, ip_dst = peer_addr s,
               header = \<lparr>hdr_version = Some 1, hdr_S = Some 1, hdr_message_type = Some mtype,
                         hdr_seid = Some v_peer_seid, hdr_seq = Some seq\<rparr>,
               message = PFCPSessionDeletionRequest, message_version = None,
               IE_list = [craft_fseid (session_our_seid session) (our_addr s)]\<rparr>, s)))"

section \<open>The session commands\<close>

text \<open>
  \<^verbatim>\<open>
  def clear_sent_rules():
      sent_pdrs.clear()
      sent_fars.clear()
      sent_urrs.clear()
      sent_qers.clear()
  \<close>
\<close>

definition clear_one :: "rule_kind \<Rightarrow> 'r globals \<Rightarrow> unit result \<times> 'r globals" where
  "clear_one kind s =
     (case sent_rules kind s of
        None \<Rightarrow> (Raise (NameError (sent_rules_name kind)), s)
      | Some _ \<Rightarrow> (Return (), set_sent_rules kind (Some Map.empty) s))"

definition clear_sent_rules :: "'r globals \<Rightarrow> unit result \<times> 'r globals" where
  "clear_sent_rules =
     and_then (clear_one PDR) (\<lambda>_. and_then (clear_one FAR) (\<lambda>_.
     and_then (clear_one URR) (\<lambda>_. clear_one QER)))"

text \<open>
  \<^verbatim>\<open>
  def create_pfcp_sessions(args):
      session_ids = range(args.seid_base, args.seid_base + args.ue_count)
      pkt = craft_pfcp_session_est_packet(args)
      send_recv_pfcp(pkt, MSG_TYPES["session_establishment_response"])

  def modify_pfcp_sessions(args):
      pkt = craft_pfcp_session_modify_packet(args)
      send_recv_pfcp(pkt, MSG_TYPES["session_modification_response"])
  \<close>
\<close>

definition read_ue_count :: "arguments \<Rightarrow> 's \<Rightarrow> int result \<times> 's" where
  "read_ue_count args s =
     (case ue_count args of None \<Rightarrow> (Raise (AttributeError ''ue_count''), s)
      | Some count \<Rightarrow> (Return count, s))"

definition create_pfcp_sessions ::
  "message_types \<Rightarrow> 'r crafts \<Rightarrow> arguments \<Rightarrow> 'r globals \<Rightarrow> unit result \<times> 'r globals" where
  "create_pfcp_sessions tbl crafts args =
     and_then (read_ue_count args) (\<lambda>count.
     and_then (craft_pfcp_session_est_packet tbl crafts args) (\<lambda>pkt.
     and_then (lift (MSG_TYPES tbl ''session_establishment_response'')) (\<lambda>expected.
     send_recv_pfcp tbl pkt expected 0)))"

definition modify_pfcp_sessions ::
  "message_types \<Rightarrow> 'r crafts \<Rightarrow> arguments \<Rightarrow> 'r globals \<Rightarrow> unit result \<times> 'r globals" where
  "modify_pfcp_sessions tbl crafts args =
     and_then (craft_pfcp_session_modify_packet tbl crafts args) (\<lambda>pkt.
     and_then (lift (MSG_TYPES tbl ''session_modification_response'')) (\<lambda>expected.
     send_recv_pfcp tbl pkt expected 0))"

text \<open>
  \<^verbatim>\<open>
  def delete_pfcp_sessions(args):
      for seid in range(args.seid_base, args.seid_base + args.ue_count):
          session = active_sessions[seid]
          pkt = craft_pfcp_session_delete_packet(session)
      send_recv_pfcp(pkt, MSG_TYPES["session_deletion_response"])
      clear_sent_rules()
  \<close>
  The loop keeps only the last packet; with an empty range \<open>pkt\<close> is unbound after it.
\<close>

fun delete_loop ::
  "message_types \<Rightarrow> int list \<Rightarrow> 'r packet option \<Rightarrow> 'r globals
     \<Rightarrow> 'r packet option result \<times> 'r globals" where
  "delete_loop tbl [] pkt s = (Return pkt, s)"
| "delete_loop tbl (v_seid # seids) pkt s =
     (case active_sessions s v_seid of
        None \<Rightarrow> (Raise (KeyError (IntKey v_seid)), s)
      | Some session \<Rightarrow>
          and_then (craft_pfcp_session_delete_packet tbl session)
            (\<lambda>pkt'. delete_loop tbl seids (Some pkt')) s)"

definition delete_pfcp_sessions ::
  "message_types \<Rightarrow> arguments \<Rightarrow> 'r globals \<Rightarrow> unit result \<times> 'r globals" where
  "delete_pfcp_sessions tbl args =
     and_then (read_ue_count args) (\<lambda>count.
     and_then (delete_loop tbl (range_iter (seid_base args) (seid_base args + count)) None)
     (\<lambda>last_pkt.
        case last_pkt of
          None \<Rightarrow> throw (UnboundLocalError ''pkt'')
        | Some pkt \<Rightarrow>
            and_then (lift (MSG_TYPES tbl ''session_deletion_response'')) (\<lambda>expected.
            and_then (send_recv_pfcp tbl pkt expected 0) (\<lambda>_. clear_sent_rules))))"

section \<open>The liveness scheduler: \<open>send_pfcp_heartbeats\<close>\<close>

text \<open>
  \<^verbatim>\<open>
  def send_pfcp_heartbeats():
      while True:
          for _ in range(HEARTBEAT_PERIOD):
              # semi-busy wait
              time.sleep(1)
              if script_terminating:
                  return
          if not association_established:
              # Don't heartbeat unless an association is currently established
              continue
          pfcp_header = pfcp.PFCP()
          pfcp_header.version = 1
          pfcp_header.S = 0  # SEID flag false
          pfcp_header.seq = get_sequence_num()
          pfcp_header.message_type = MSG_TYPES["heartbeat_request"]
          heartbeat = pfcp.PFCPHeartbeatRequest()
          heartbeat.version = 1
          heartbeat.IE_list.append(pfcp.IE_RecoveryTimeStamp())
          pkt = IP(src=our_addr, dst=peer_addr) / UDP() / pfcp_header / heartbeat
          send_recv_pfcp(pkt, MSG_TYPES["heartbeat_response"], verbosity=0)
  \<close>
  The loop has no exit but the termination flag, which another thread sets. The model is
  the loop's step on the activity's position and the global state the step finds; the
  command activity may have changed the globals between two steps. \<open>Polling k\<close>: \<open>k\<close>
  polls of the current period are done, and the step is one \<open>time.sleep(1)\<close> with the test
  of \<open>script_terminating\<close> that follows it. \<open>Testing\<close>: the period is over, and the step is
  the test of \<open>association_established\<close>. \<open>Sending\<close>: the test found the flag set, and
  the step builds the heartbeat and runs the exchange. \<open>Exited\<close>: the function has
  returned. \<open>Crashed\<close>: an exception left it. \<open>Stalled\<close>: it waits for a datagram that
  does not arrive.

  The codec's \<open>PFCPHeartbeatRequest\<close> comes with a default list of one
  \<open>IE_RecoveryTimeStamp\<close>, to which the code appends another: the request carries two.
\<close>

definition send_heartbeat :: "message_types \<Rightarrow> 'r globals \<Rightarrow> unit result \<times> 'r globals" where
  "send_heartbeat tbl =
     and_then next_sequence_num (\<lambda>seq.
     and_then (lift (MSG_TYPES tbl ''heartbeat_request'')) (\<lambda>mtype.
     and_then (lift (MSG_TYPES tbl ''heartbeat_response'')) (\<lambda>expected s.
       send_recv_pfcp tbl
         \<lparr>ip_src = our_addr s, ip_dst = peer_addr s,
          header = \<lparr>hdr_version = Some 1, hdr_S = Some 0, hdr_message_type = Some mtype,
                    hdr_seid = None, hdr_seq = Some seq\<rparr>,
          message = PFCPHeartbeatRequest, message_version = Some 1,
          IE_list = [IE_RecoveryTimeStamp, IE_RecoveryTimeStamp]\<rparr>
         expected 0 s)))"

datatype position = Polling nat | Testing | Sending | Exited | Crashed error | Stalled

definition heartbeat_step ::
  "message_types \<Rightarrow> position \<times> 'r globals \<Rightarrow> position \<times> 'r globals" where
  "heartbeat_step tbl ps =
     (case ps of
        (Polling k, s) \<Rightarrow>
          if script_terminating s then (Exited, s)
          else if Suc k < HEARTBEAT_PERIOD then (Polling (Suc k), s)
          else (Testing, s)
      | (Testing, s) \<Rightarrow>
          if \<not> association_established s then (Polling 0, s) else (Sending, s)
      | (Sending, s) \<Rightarrow>
          (case send_heartbeat tbl s of
             (Return _, s') \<Rightarrow> (Polling 0, s')
           | (Raise e, s') \<Rightarrow> (Crashed e, s')
           | (Blocked, s') \<Rightarrow> (Stalled, s'))
      | (p, s) \<Rightarrow> (p, s))"

text \<open>The activity run alone for a number of steps, the globals changed by no one else.\<close>

definition send_pfcp_heartbeats ::
  "message_types \<Rightarrow> nat \<Rightarrow> 'r globals \<Rightarrow> position \<times> 'r globals" where
  "send_pfcp_heartbeats tbl steps s = (heartbeat_step tbl ^^ steps) (Polling 0, s)"

section \<open>The command orchestrator\<close>

text \<open>
  \<^verbatim>\<open>
  def terminate(args):
      global script_terminating
      if association_established:
          print("Exiting before association deleted. Deleting..")
          delete_pfcp_sessions(args)
      script_terminating = True
      exit()
  \<close>
  \<open>exit()\<close> raises \<open>SystemExit\<close>, which ends the calling thread.
\<close>

definition terminate :: "message_types \<Rightarrow> arguments \<Rightarrow> 'r globals \<Rightarrow> unit result \<times> 'r globals" where
  "terminate tbl args =
     and_then
       (\<lambda>s. if association_established s then
               delete_pfcp_sessions tbl args
                 (py_print (Print ''Exiting before association deleted. Deleting..'') s)
             else (Return (), s))
       (\<lambda>_ s. (Raise SystemExit, s\<lparr>script_terminating := True\<rparr>))"

text \<open>
  \<^verbatim>\<open>
      user_choices = {
          "associate": ("Setup PFCP Association", setup_pfcp_association),
          "create": ("Create PFCP Session(s)", create_pfcp_sessions),
          "modify": ("Modify PFCP Session(s)", modify_pfcp_sessions),
          "delete": ("Delete PFCP Session(s)", delete_pfcp_sessions),
          "disassociate": ("Teardown PFCP Association", teardown_pfcp_association),
          "interrupt": ("Ungracefully teardown PFCP association", interrupt_association),
          "stop": ("Exit script", terminate)
      }
      ...
          try:
              choice_desc, choice_func = user_choices[args.choice]
              print("Selected %s" % choice_desc)
              choice_func(args)
          except Exception as e:
              # Catch the exception just long enough to signal the heartbeat thread to end
              script_terminating = True
              raise e
  \<close>
  \<open>SystemExit\<close> is not an \<open>Exception\<close>: the handler does not see it. The parser's
  namespace is modelled by \<open>parsed\<close>: it has the options' values and no \<open>ue_count\<close>.
\<close>

datatype choice = Associate | Create | Modify | Delete | Disassociate | Interrupt | Stop

definition choice_desc :: "choice \<Rightarrow> string" where
  "choice_desc c =
     (case c of
        Associate \<Rightarrow> ''Setup PFCP Association''
      | Create \<Rightarrow> ''Create PFCP Session(s)''
      | Modify \<Rightarrow> ''Modify PFCP Session(s)''
      | Delete \<Rightarrow> ''Delete PFCP Session(s)''
      | Disassociate \<Rightarrow> ''Teardown PFCP Association''
      | Interrupt \<Rightarrow> ''Ungracefully teardown PFCP association''
      | Stop \<Rightarrow> ''Exit script'')"

definition choice_func ::
  "message_types \<Rightarrow> 'r crafts \<Rightarrow> choice \<Rightarrow> arguments \<Rightarrow> 'r globals \<Rightarrow> unit result \<times> 'r globals" where
  "choice_func tbl crafts c args =
     (case c of
        Associate \<Rightarrow> setup_pfcp_association tbl args
      | Create \<Rightarrow> create_pfcp_sessions tbl crafts args
      | Modify \<Rightarrow> modify_pfcp_sessions tbl crafts args
      | Delete \<Rightarrow> delete_pfcp_sessions tbl args
      | Disassociate \<Rightarrow> teardown_pfcp_association tbl args
      | Interrupt \<Rightarrow> interrupt_association args
      | Stop \<Rightarrow> terminate tbl args)"

definition run_choice ::
  "message_types \<Rightarrow> 'r crafts \<Rightarrow> choice \<Rightarrow> arguments \<Rightarrow> 'r globals \<Rightarrow> unit result \<times> 'r globals" where
  "run_choice tbl crafts c args s =
     (case choice_func tbl crafts c args (py_print (Print (''Selected '' @ choice_desc c)) s) of
        (Raise e, s') \<Rightarrow>
          if e = SystemExit then (Raise e, s') else (Raise e, s'\<lparr>script_terminating := True\<rparr>)
      | (r, s') \<Rightarrow> (r, s'))"

definition parsed :: arguments where
  "parsed =
     \<lparr>buffer = False, session_count = 1, ue_count = None,
      ue_pool = \<lparr>network_address = 285212672, prefixlen = 24\<rparr>,
      s1u_addr = 2348836094, enb_addr = 2348835841,
      seid_base = 1, teid_base = 255, pdr_base = 1, far_base = 1, urr_base = 1, qer_base = 1,
      pdr_precedence = 2\<rparr>"

text \<open>
  \<^verbatim>\<open>
      while True:
          for choice, (action_desc, action) in user_choices.items():
              print("\"%s\" - %s" % (choice, action_desc))
          try:
              args = parser.parse_args(input("Enter your selection : ").split())
          except Exception as e:
              print(e)
              parser.print_help()
              continue
          ...
  \<close>
  The command loop over the command lines the operator enters (those the parser accepts):
  each round prints the menu, then runs the chosen handler; the loop goes on after a
  handler that returns, and ends with the handler's exception. With no line left it
  waits for input.
\<close>

definition choice_name :: "choice \<Rightarrow> string" where
  "choice_name c =
     (case c of
        Associate \<Rightarrow> ''associate''
      | Create \<Rightarrow> ''create''
      | Modify \<Rightarrow> ''modify''
      | Delete \<Rightarrow> ''delete''
      | Disassociate \<Rightarrow> ''disassociate''
      | Interrupt \<Rightarrow> ''interrupt''
      | Stop \<Rightarrow> ''stop'')"

definition print_menu :: "'r globals \<Rightarrow> 'r globals" where
  "print_menu s =
     foldl (\<lambda>s c. py_print
                     (Print ([CHR 0x22] @ choice_name c @ [CHR 0x22] @ '' - '' @ choice_desc c))
                     s)
       s [Associate, Create, Modify, Delete, Disassociate, Interrupt, Stop]"

fun handle_user_input ::
  "message_types \<Rightarrow> 'r crafts \<Rightarrow> (choice \<times> arguments) list \<Rightarrow> 'r globals
     \<Rightarrow> unit result \<times> 'r globals" where
  "handle_user_input tbl crafts [] s = (Blocked, print_menu s)"
| "handle_user_input tbl crafts ((c, args) # rest) s =
     (case run_choice tbl crafts c args (print_menu s) of
        (Return _, s') \<Rightarrow> handle_user_input tbl crafts rest s'
      | (r, s') \<Rightarrow> (r, s'))"

section \<open>Two activities calling \<open>get_sequence_num\<close>\<close>

text \<open>
  The command activity and the liveness activity are two threads, and both call
  \<open>get_sequence_num\<close>. A call passes four points: it acquires \<open>thread_lock\<close> (waiting while
  another call holds it), updates the counter, releases the lock, and then evaluates
  \<open>return sequence_number\<close>, which reads the global after the lock is released. A
  schedule names the thread that takes the next step.
\<close>

datatype call_point = At_acquire | At_update | At_release | At_return | Returned int

record calls =
  counter :: int
  lock_held :: bool
  points :: "call_point list"

definition call_step :: "bool \<Rightarrow> nat \<Rightarrow> calls \<Rightarrow> calls" where
  "call_step reset t c =
     (if t < length (points c) then
        (case points c ! t of
           At_acquire \<Rightarrow>
             if lock_held c then c
             else c\<lparr>lock_held := True, points := (points c)[t := At_update]\<rparr>
         | At_update \<Rightarrow>
             c\<lparr>counter := (if reset then 0 else counter c) + 1,
               points := (points c)[t := At_release]\<rparr>
         | At_release \<Rightarrow> c\<lparr>lock_held := False, points := (points c)[t := At_return]\<rparr>
         | At_return \<Rightarrow> c\<lparr>points := (points c)[t := Returned (counter c)]\<rparr>
         | Returned v \<Rightarrow> c)
      else c)"

definition run_calls :: "nat list \<Rightarrow> calls \<Rightarrow> calls" where
  "run_calls schedule c = foldl (\<lambda>c t. call_step False t c) c schedule"

definition two_calls :: "int \<Rightarrow> calls" where
  "two_calls n = \<lparr>counter = n, lock_held = False, points = [At_acquire, At_acquire]\<rparr>"

section \<open>Notions used to state the theorems\<close>

text \<open>
  The session and association state of the client: every global but the world
  (\<open>wire\<close>, \<open>inbox\<close>, \<open>stdout\<close>, \<open>pcap\<close>) and the constants set at start-up.
\<close>

definition protocol_state ::
  "'r globals \<Rightarrow>
     int \<times> bool \<times> bool \<times> (int \<rightharpoonup> 'r Session) \<times> int option \<times> int option
       \<times> (int \<rightharpoonup> 'r) option \<times> (int \<rightharpoonup> 'r) option \<times> (int \<rightharpoonup> 'r) option
       \<times> (int \<rightharpoonup> 'r) option" where
  "protocol_state s =
     (sequence_number s, association_established s, script_terminating s, active_sessions s,
      peer_seid s, our_seid s, sent_pdrs s, sent_fars s, sent_urrs s, sent_qers s)"

text \<open>
  The value of \<open>peer_seid\<close> after the loop over a response's elements: the \<open>seid\<close> of the
  last element of type 57, or the old value when there is none.
\<close>

definition apply_fseid :: "int option \<Rightarrow> response_ie list \<Rightarrow> int option" where
  "apply_fseid = foldl (\<lambda>p ie. if ie_type ie = 57 then Some (ie_seid ie) else p)"

text \<open>
  The codec's table for concrete runs: the message types of the PFCP specification
  (3GPP TS 29.244, types 1 to 15 and 50 to 57) under the names the codec gives them.
\<close>

definition example_message_types :: message_types where
  "example_message_types =
     [(1, ''heartbeat_request''), (2, ''heartbeat_response''),
      (3, ''pfd_management_request''), (4, ''pfd_management_response''),
      (5, ''association_setup_request''), (6, ''association_setup_response''),
      (7, ''association_update_request''), (8, ''association_update_response''),
      (9, ''association_release_request''), (10, ''association_release_response''),
      (11, ''version_not_supported_response''),
      (12, ''node_report_request''), (13, ''node_report_response''),
      (14, ''session_set_deletion_request''), (15, ''session_set_deletion_response''),
      (50, ''session_establishment_request''), (51, ''session_establishment_response''),
      (52, ''session_modification_request''), (53, ''session_modification_response''),
      (54, ''session_deletion_request''), (55, ''session_deletion_response''),
      (56, ''session_report_request''), (57, ''session_report_response'')]"

text \<open>The globals when the two activities start, with no capture file.\<close>

definition start :: "nat globals" where
  "start = initial_globals ''10.0.0.1'' ''10.0.0.2'' None"

text \<open>
  A response of a given type that carries one element, a recovery time stamp (type 96),
  and a response that carries none.
\<close>

definition reply :: "int \<Rightarrow> response" where
  "reply t = \<lparr>message_type = t, response_IE_list = [\<lparr>ie_type = 96, ie_seid = 0\<rparr>]\<rparr>"

definition reply_without_elements :: "int \<Rightarrow> response" where
  "reply_without_elements t = \<lparr>message_type = t, response_IE_list = []\<rparr>"

text \<open>A response that carries an F-SEID element with the peer's token.\<close>

definition reply_with_fseid :: "int \<Rightarrow> int \<Rightarrow> response" where
  "reply_with_fseid t v_seid =
     \<lparr>message_type = t, response_IE_list = [\<lparr>ie_type = 57, ie_seid = v_seid\<rparr>]\<rparr>"

text \<open>
  For concrete runs in which the \<open>craft_*\<close> calls succeed: each rule is recorded as its
  kind, its identifier, the \<open>update\<close> flag and the identifiers it refers to.
\<close>

datatype recorded = Recorded rule_kind int bool "int list"

definition recording_crafts :: "recorded crafts" where
  "recording_crafts =
     \<lparr>craft_pdr = (\<lambda>k. Inr (Recorded PDR (pdr_kw_id k) (pdr_kw_update k)
                              [pdr_kw_far_id k, pdr_kw_qer_id k, pdr_kw_urr_id k])),
      craft_far = (\<lambda>k. Inr (Recorded FAR (far_kw_id k) (far_kw_update k) [])),
      craft_qer = (\<lambda>k. Inr (Recorded QER (qer_kw_id k) (qer_kw_update k) [])),
      craft_urr = (\<lambda>k. Inr (Recorded URR (urr_kw_id k) (urr_kw_update k) []))\<rparr>"

text \<open>
  The globals of a module that declares the names the functions use: \<open>our_seid\<close> is 1 and
  the four caches are empty dicts.
\<close>

definition prepared :: "recorded globals" where
  "prepared =
     (initial_globals ''10.0.0.1'' ''10.0.0.2'' None)
       \<lparr>our_seid := Some 1, sent_pdrs := Some Map.empty, sent_fars := Some Map.empty,
        sent_urrs := Some Map.empty, sent_qers := Some Map.empty\<rparr>"

text \<open>A registered session whose peer token has been received.\<close>

definition one_session :: "recorded Session" where
  "one_session =
     \<lparr>session_our_seid = 1, session_peer_seid = Some 9, session_sent_pdrs = Map.empty,
      session_sent_fars = Map.empty, session_sent_urrs = Map.empty,
      session_sent_qers = Map.empty\<rparr>"

text \<open>
  An operation ignores the registry of sessions when it neither reads nor writes
  \<open>active_sessions\<close>: run on a state with another registry it gives the same result and
  the same state, with that other registry.
\<close>

definition ignores_registry :: "('r globals \<Rightarrow> 'a result \<times> 'r globals) \<Rightarrow> bool" where
  "ignores_registry m \<longleftrightarrow>
     (\<forall>s a. m (s\<lparr>active_sessions := a\<rparr>)
              = (fst (m s), (snd (m s))\<lparr>active_sessions := a\<rparr>))"

section \<open>Theorems\<close>

subsection \<open>Sequencing\<close>

lemma and_then_lift_Inr [simp]: "and_then (lift (Inr x)) f s = f x s"
  by (simp add: and_then_def lift_def)

lemma and_then_lift_Inl [simp]: "and_then (lift (Inl e)) f s = (Raise e, s)"
  by (simp add: and_then_def lift_def)

lemma and_then_ret [simp]: "and_then (ret x) f s = f x s"
  by (simp add: and_then_def ret_def)

lemma and_then_throw [simp]: "and_then (throw e) f s = (Raise e, s)"
  by (simp add: and_then_def throw_def)

lemma and_then_cases:
  "and_then m f s =
     (case fst (m s) of Return x \<Rightarrow> f x (snd (m s)) | Raise e \<Rightarrow> (Raise e, snd (m s))
      | Blocked \<Rightarrow> (Blocked, snd (m s)))"
  by (cases "m s"; cases "fst (m s)") (auto simp: and_then_def)

lemma frame_and_then:
  assumes "\<And>s. f (snd (m s)) = f s" and "\<And>x s. f (snd (k x s)) = f s"
  shows "f (snd (and_then m k s)) = f s"
proof (cases "m s")
  case (Pair r s')
  with assms(1) [of s] have "f s' = f s" by simp
  with Pair assms(2) show ?thesis by (cases r) (simp_all add: and_then_def)
qed

lemma msg_types_example:
  "MSG_TYPES example_message_types ''association_setup_response'' = Inr 6"
  "MSG_TYPES example_message_types ''association_release_response'' = Inr 10"
  "MSG_TYPES example_message_types ''session_establishment_request'' = Inr 50"
  "MSG_TYPES example_message_types ''session_establishment_response'' = Inr 51"
  "MSG_TYPES example_message_types ''session_deletion_request'' = Inr 54"
  "MSG_TYPES example_message_types ''session_deletion_response'' = Inr 55"
  "MSG_TYPES example_message_types ''heartbeat_request'' = Inr 1"
  "MSG_TYPES example_message_types ''heartbeat_response'' = Inr 2"
  by (simp_all add: MSG_TYPES_def example_message_types_def)

lemma message_names_example:
  "PFCPmessageType example_message_types 6 = Inr ''association_setup_response''"
  "PFCPmessageType example_message_types 10 = Inr ''association_release_response''"
  by (simp_all add: PFCPmessageType_def example_message_types_def)

subsection \<open>The rule change cache\<close>

lemma already_sent_eq: "already_sent i r m = (m i = Some r, m(i \<mapsto> r))"
  by (cases "m i") (auto simp: already_sent_def)

lemma already_sent_refines_classify:
  "spec_classify i r m =
     (classification_of (m i) (fst (already_sent i r m)), snd (already_sent i r m))"
  by (cases "m i") (auto simp: spec_classify_def classification_of_def already_sent_eq)

text \<open>
  Claim C1. Starting from an empty cache (of any rule kind: the four caches are four such
  maps), the first call of \<open>already_sent\<close> for an identifier answers \<open>False\<close> from the
  branch for an absent entry (New); a second call with an equal candidate answers \<open>True\<close>
  (Unchanged); a second call with a different candidate answers \<open>False\<close> from the
  comparison (Changed); and a third call repeating that second candidate answers \<open>True\<close>
  (Unchanged).
\<close>

theorem classify_sequence:
  fixes i :: int and r r' :: 'r
  assumes "r' \<noteq> r"
  shows "(let (a1, m1) = already_sent i r Map.empty;
              (a2, m2) = already_sent i r m1;
              (b2, n2) = already_sent i r' m1;
              (b3, n3) = already_sent i r' n2
          in classification_of (Map.empty i :: 'r option) a1 = New \<and> \<not> a1
           \<and> classification_of (m1 i) a2 = Unchanged \<and> a2
           \<and> classification_of (m1 i) b2 = Changed \<and> \<not> b2
           \<and> classification_of (n2 i) b3 = Unchanged \<and> b3)
       \<and> fst (spec_classify i r Map.empty) = New
       \<and> fst (spec_classify i r (snd (spec_classify i r Map.empty))) = Unchanged
       \<and> fst (spec_classify i r' (snd (spec_classify i r Map.empty))) = Changed
       \<and> fst (spec_classify i r'
            (snd (spec_classify i r' (snd (spec_classify i r Map.empty))))) = Unchanged"
  using assms
  by (simp add: already_sent_eq classification_of_def spec_classify_def)

theorem classify_sequence_witness:
  "(7::nat) \<noteq> 5
   \<and> fst (already_sent 3 (5::nat) Map.empty) = False
   \<and> fst (already_sent 3 (5::nat) (snd (already_sent 3 5 Map.empty))) = True
   \<and> fst (already_sent 3 (7::nat) (snd (already_sent 3 5 Map.empty))) = False
   \<and> fst (already_sent 3 (7::nat)
        (snd (already_sent 3 7 (snd (already_sent 3 5 Map.empty))))) = True
   \<and> fst (spec_classify 3 (7::nat) (snd (spec_classify 3 5 Map.empty))) = Changed"
proof -
  have d: "(7::nat) \<noteq> 5" by simp
  show ?thesis
    using classify_sequence [OF d, of 3]
    by (simp add: already_sent_eq)
qed

text \<open>
  Claim C2. Every call of \<open>already_sent\<close> stores the candidate: afterwards the cache maps
  the identifier to the candidate and is otherwise as before, whether the answer is \<open>True\<close>
  or \<open>False\<close>, and so whether or not the caller then appends the rule to the request. The
  answer depends only on what the cache held for that identifier before the call (and on
  the candidate): nothing gives New, the same rule gives Unchanged, another rule gives
  Changed.
\<close>

theorem store_then_compare:
  "snd (already_sent i r m) = m(i \<mapsto> r)
   \<and> snd (already_sent i r m) i = Some r
   \<and> fst (already_sent i r m) = (m i = Some r)
   \<and> classification_of (m i) (fst (already_sent i r m)) =
       (case m i of None \<Rightarrow> New | Some p \<Rightarrow> if p = r then Unchanged else Changed)
   \<and> spec_classify i r m =
       (classification_of (m i) (fst (already_sent i r m)), snd (already_sent i r m))
   \<and> (\<forall>m'. m' i = m i \<longrightarrow> fst (already_sent i r m') = fst (already_sent i r m))
   \<and> (sent_rules kind s = Some m \<longrightarrow>
        append_unless_sent False kind i r ies s =
          (Return (if m i = Some r then ies else ies @ [IE_Rule r]),
           set_sent_rules kind (Some (m(i \<mapsto> r))) s))"
  by (cases "m i")
     (auto simp: already_sent_eq classification_of_def spec_classify_def append_unless_sent_def)

theorem store_then_compare_witness:
  "sent_rules PDR (start\<lparr>sent_pdrs := Some [3 \<mapsto> 5]\<rparr>) = Some [3 \<mapsto> 5]
   \<and> snd (already_sent 3 (7::nat) [3 \<mapsto> 5]) 3 = Some 7
   \<and> fst (already_sent 3 (7::nat) [3 \<mapsto> 5]) = False
   \<and> fst (already_sent 3 (5::nat) [3 \<mapsto> 5, 4 \<mapsto> 9]) = True
   \<and> fst (already_sent 3 (5::nat) Map.empty) = False
   \<and> append_unless_sent False PDR 3 5 [] (start\<lparr>sent_pdrs := Some [3 \<mapsto> 5]\<rparr>)
       = (Return [], set_sent_rules PDR (Some [3 \<mapsto> 5])
                       (start\<lparr>sent_pdrs := Some [3 \<mapsto> 5]\<rparr>))"
proof -
  have h: "sent_rules PDR (start\<lparr>sent_pdrs := Some [3 \<mapsto> 5]\<rparr>) = Some [3 \<mapsto> 5]"
    by (simp add: sent_rules_def)
  show ?thesis
    using h
      store_then_compare [of 3 "7::nat" "[3 \<mapsto> 5]" PDR start "[]"]
      store_then_compare [of 3 "5::nat" "[3 \<mapsto> 5, 4 \<mapsto> 9]" PDR start "[]"]
      store_then_compare [of 3 "5::nat" Map.empty PDR start "[]"]
      store_then_compare [of 3 "5::nat" "[3 \<mapsto> 5]" PDR
        "start\<lparr>sent_pdrs := Some [3 \<mapsto> 5]\<rparr>" "[]"]
    by simp
qed

subsection \<open>The correlator\<close>

text \<open>What the loop over the response's elements changes.\<close>

lemma foldl_handle_ie_frame:
  assumes "\<And>s x. f (s\<lparr>peer_seid := x\<rparr>) = f s" and "\<And>s l. f (s\<lparr>stdout := l\<rparr>) = f s"
  shows "f (foldl (handle_ie v) s ies) = f s"
proof (induction ies arbitrary: s)
  case Nil
  show ?case by simp
next
  case (Cons ie ies)
  have "f (handle_ie v s ie) = f s"
    by (simp add: handle_ie_def print_ie_def py_print_def assms Let_def)
  with Cons show ?case by simp
qed

lemma foldl_handle_ie_peer_seid:
  "peer_seid (foldl (handle_ie v) s ies) = apply_fseid (peer_seid s) ies"
proof (induction ies arbitrary: s)
  case Nil
  show ?case by (simp add: apply_fseid_def)
next
  case (Cons ie ies)
  have "peer_seid (handle_ie v s ie) = (if ie_type ie = 57 then Some (ie_seid ie) else peer_seid s)"
    by (simp add: handle_ie_def print_ie_def py_print_def Let_def)
  with Cons show ?case by (simp add: apply_fseid_def)
qed

lemma send_recv_frame:
  assumes "\<And>s x. f (s\<lparr>peer_seid := x\<rparr>) = f s" and "\<And>s l. f (s\<lparr>stdout := l\<rparr>) = f s"
    and "\<And>s l. f (s\<lparr>pcap := l\<rparr>) = f s" and "\<And>s l. f (s\<lparr>wire := l\<rparr>) = f s"
    and "\<And>s l. f (s\<lparr>inbox := l\<rparr>) = f s"
  shows "f (snd (send_recv_pfcp tbl pkt expected v s)) = f s"
proof -
  have cap: "f (capture c t) = f t" for c t
    by (simp add: capture_def assms split: option.split)
  have pr: "f (py_print l t) = f t" for l t
    by (simp add: py_print_def assms)
  have fo: "f (foldl (handle_ie v) t ies) = f t" for t ies
    by (rule foldl_handle_ie_frame) (rule assms)+
  show ?thesis
    by (simp add: send_recv_pfcp_def Let_def and_then_def lift_def PFCPmessageType_def
          cap pr fo assms del: foldl_Cons split: list.split option.split)
qed

lemma send_recv_match:
  assumes "inbox s = r # rest" and "message_type r = expected"
    and "response_IE_list r \<noteq> []"
  shows "fst (send_recv_pfcp tbl pkt expected v s) = Return ()"
    and "inbox (snd (send_recv_pfcp tbl pkt expected v s)) = rest"
    and "wire (snd (send_recv_pfcp tbl pkt expected v s)) = wire s @ [pkt]"
    and "peer_seid (snd (send_recv_pfcp tbl pkt expected v s))
           = apply_fseid (peer_seid s) (response_IE_list r)"
proof -
  have i: "inbox (capture c t) = inbox t" "inbox (py_print l t) = inbox t" for c l and t :: "'a globals"
    by (simp_all add: capture_def py_print_def split: option.split)
  have w: "wire (capture c t) = wire t" "wire (py_print l t) = wire t" for c l and t :: "'a globals"
    by (simp_all add: capture_def py_print_def split: option.split)
  have p: "peer_seid (capture c t) = peer_seid t" "peer_seid (py_print l t) = peer_seid t" for c l and t :: "'a globals"
    by (simp_all add: capture_def py_print_def split: option.split)
  show "fst (send_recv_pfcp tbl pkt expected v s) = Return ()"
    using assms by (simp add: send_recv_pfcp_def Let_def i split: list.split)
  show "inbox (snd (send_recv_pfcp tbl pkt expected v s)) = rest"
    using assms
    by (simp add: send_recv_pfcp_def Let_def i foldl_handle_ie_frame [where f = inbox]
          del: foldl_Cons split: list.split)
  show "wire (snd (send_recv_pfcp tbl pkt expected v s)) = wire s @ [pkt]"
    using assms
    by (simp add: send_recv_pfcp_def Let_def i w foldl_handle_ie_frame [where f = wire]
          del: foldl_Cons split: list.split)
  show "peer_seid (snd (send_recv_pfcp tbl pkt expected v s))
           = apply_fseid (peer_seid s) (response_IE_list r)"
    using assms
    by (simp add: send_recv_pfcp_def Let_def i p foldl_handle_ie_peer_seid
          del: foldl_Cons split: list.split)
qed

lemma send_recv_no_element:
  assumes "inbox s = r # rest" and "message_type r = expected"
    and "response_IE_list r = []"
  shows "fst (send_recv_pfcp tbl pkt expected v s) = Raise (AttributeError ''IE_list'')"
    and "protocol_state (snd (send_recv_pfcp tbl pkt expected v s)) = protocol_state s"
proof -
  have i: "inbox (capture c t) = inbox t" "inbox (py_print l t) = inbox t"
    for c l and t :: "'a globals"
    by (simp_all add: capture_def py_print_def split: option.split)
  show "fst (send_recv_pfcp tbl pkt expected v s) = Raise (AttributeError ''IE_list'')"
    using assms by (simp add: send_recv_pfcp_def Let_def i)
  have "peer_seid (snd (send_recv_pfcp tbl pkt expected v s)) = peer_seid s"
    using assms
    by (simp add: send_recv_pfcp_def Let_def i py_print_def capture_def split: option.split)
  then show "protocol_state (snd (send_recv_pfcp tbl pkt expected v s)) = protocol_state s"
    unfolding protocol_state_def
    by (simp add: send_recv_frame)
qed

lemma send_recv_wire: "wire (snd (send_recv_pfcp tbl pkt expected v s)) = wire s @ [pkt]"
proof -
  have w: "wire (capture c t) = wire t" "wire (py_print l t) = wire t"
    for c l and t :: "'a globals"
    by (simp_all add: capture_def py_print_def split: option.split)
  have fo: "wire (foldl (handle_ie v) t ies) = wire t" for ies and t :: "'a globals"
    by (rule foldl_handle_ie_frame) simp_all
  show ?thesis
    by (simp add: send_recv_pfcp_def Let_def and_then_def lift_def PFCPmessageType_def
          w fo del: foldl_Cons split: list.split option.split)
qed

lemma send_recv_mismatch:
  assumes "inbox s = r # rest" and "message_type r \<noteq> expected"
  shows "protocol_state (snd (send_recv_pfcp tbl pkt expected v s)) = protocol_state s"
    and "inbox (snd (send_recv_pfcp tbl pkt expected v s)) = rest"
    and "PFCPmessageType tbl expected = Inl e
         \<Longrightarrow> fst (send_recv_pfcp tbl pkt expected v s) = Raise e"
    and "PFCPmessageType tbl expected = Inr n \<Longrightarrow> PFCPmessageType tbl (message_type r) = Inl e
         \<Longrightarrow> fst (send_recv_pfcp tbl pkt expected v s) = Raise e"
    and "PFCPmessageType tbl expected = Inr n \<Longrightarrow> PFCPmessageType tbl (message_type r) = Inr m
         \<Longrightarrow> fst (send_recv_pfcp tbl pkt expected v s) = Return ()
             \<and> stdout (snd (send_recv_pfcp tbl pkt expected v s)) \<noteq> []
             \<and> last (stdout (snd (send_recv_pfcp tbl pkt expected v s)))
                 = Print (''ERROR: Expected response of type '' @ n @ '' but received '' @ m)"
proof -
  have i: "inbox (capture c t) = inbox t" "inbox (py_print l t) = inbox t"
    for c l and t :: "'a globals"
    by (simp_all add: capture_def py_print_def split: option.split)
  have "peer_seid (snd (send_recv_pfcp tbl pkt expected v s)) = peer_seid s"
    using assms
    by (simp add: send_recv_pfcp_def Let_def and_then_def lift_def i py_print_def capture_def
          split: sum.split option.split)
  then show "protocol_state (snd (send_recv_pfcp tbl pkt expected v s)) = protocol_state s"
    unfolding protocol_state_def
    by (simp add: send_recv_frame)
  show "inbox (snd (send_recv_pfcp tbl pkt expected v s)) = rest"
    using assms
    by (simp add: send_recv_pfcp_def Let_def and_then_def lift_def i py_print_def
          split: sum.split)
  show "PFCPmessageType tbl expected = Inl e
         \<Longrightarrow> fst (send_recv_pfcp tbl pkt expected v s) = Raise e"
    using assms by (simp add: send_recv_pfcp_def Let_def i)
  show "PFCPmessageType tbl expected = Inr n \<Longrightarrow> PFCPmessageType tbl (message_type r) = Inl e
         \<Longrightarrow> fst (send_recv_pfcp tbl pkt expected v s) = Raise e"
    using assms by (simp add: send_recv_pfcp_def Let_def i)
  show "PFCPmessageType tbl expected = Inr n \<Longrightarrow> PFCPmessageType tbl (message_type r) = Inr m
         \<Longrightarrow> fst (send_recv_pfcp tbl pkt expected v s) = Return ()
             \<and> stdout (snd (send_recv_pfcp tbl pkt expected v s)) \<noteq> []
             \<and> last (stdout (snd (send_recv_pfcp tbl pkt expected v s)))
                 = Print (''ERROR: Expected response of type '' @ n @ '' but received '' @ m)"
    using assms by (simp add: send_recv_pfcp_def Let_def i py_print_def)
qed

subsection \<open>The association\<close>

lemma get_sequence_num_fields [simp]:
  "inbox (snd (get_sequence_num b s)) = inbox s"
  "wire (snd (get_sequence_num b s)) = wire s"
  "association_established (snd (get_sequence_num b s)) = association_established s"
  "script_terminating (snd (get_sequence_num b s)) = script_terminating s"
  "active_sessions (snd (get_sequence_num b s)) = active_sessions s"
  "peer_seid (snd (get_sequence_num b s)) = peer_seid s"
  "our_seid (snd (get_sequence_num b s)) = our_seid s"
  "our_addr (snd (get_sequence_num b s)) = our_addr s"
  "peer_addr (snd (get_sequence_num b s)) = peer_addr s"
  by (simp_all add: get_sequence_num_def Let_def)

lemma setup_ok:
  assumes "MSG_TYPES tbl ''association_setup_response'' = Inr t"
    and "inbox s = r # rest" and "message_type r = t" and "response_IE_list r \<noteq> []"
  shows "fst (setup_pfcp_association tbl args s) = Return ()"
    and "association_established (snd (setup_pfcp_association tbl args s))"
    and "inbox (snd (setup_pfcp_association tbl args s)) = rest"
    and "wire (snd (setup_pfcp_association tbl args s))
           = wire s @ [craft_pfcp_association_setup_packet (snd (get_sequence_num True s))]"
proof -
  let ?s1 = "snd (get_sequence_num True s)"
  let ?pkt = "craft_pfcp_association_setup_packet ?s1"
  have in1: "inbox ?s1 = r # rest" by (simp add: assms)
  note m = send_recv_match [OF in1 assms(3) assms(4), where tbl = tbl and pkt = ?pkt and v = 0]
  have eq: "setup_pfcp_association tbl args s =
              (Return (), (snd (send_recv_pfcp tbl ?pkt t 0 ?s1))\<lparr>association_established := True\<rparr>)"
    by (simp add: setup_pfcp_association_def Let_def assms(1)) (simp add: and_then_cases m)
  show "fst (setup_pfcp_association tbl args s) = Return ()" by (simp add: eq)
  show "association_established (snd (setup_pfcp_association tbl args s))" by (simp add: eq)
  show "inbox (snd (setup_pfcp_association tbl args s)) = rest" by (simp add: eq m)
  show "wire (snd (setup_pfcp_association tbl args s)) = wire s @ [?pkt]" by (simp add: eq m)
qed

lemma teardown_ok:
  assumes "MSG_TYPES tbl ''association_release_response'' = Inr t"
    and "inbox s = r # rest" and "message_type r = t" and "response_IE_list r \<noteq> []"
  shows "fst (teardown_pfcp_association tbl args s) = Return ()"
    and "\<not> association_established (snd (teardown_pfcp_association tbl args s))"
    and "inbox (snd (teardown_pfcp_association tbl args s)) = rest"
    and "wire (snd (teardown_pfcp_association tbl args s))
           = wire s @ [craft_pfcp_association_release_packet s]"
proof -
  let ?pkt = "craft_pfcp_association_release_packet s"
  note m = send_recv_match [OF assms(2) assms(3) assms(4),
             where tbl = tbl and pkt = ?pkt and v = 0]
  have eq: "teardown_pfcp_association tbl args s =
              (Return (), (snd (send_recv_pfcp tbl ?pkt t 0 s))\<lparr>association_established := False\<rparr>)"
    by (simp add: teardown_pfcp_association_def Let_def assms(1)) (simp add: and_then_cases m)
  show "fst (teardown_pfcp_association tbl args s) = Return ()" by (simp add: eq)
  show "\<not> association_established (snd (teardown_pfcp_association tbl args s))"
    by (simp add: eq)
  show "inbox (snd (teardown_pfcp_association tbl args s)) = rest" by (simp add: eq m)
  show "wire (snd (teardown_pfcp_association tbl args s)) = wire s @ [?pkt]"
    by (simp add: eq m)
qed

lemma setup_after_mismatch:
  assumes "MSG_TYPES tbl ''association_setup_response'' = Inr t"
    and "inbox s = r # rest" and "message_type r \<noteq> t"
    and "PFCPmessageType tbl t = Inr n" and "PFCPmessageType tbl (message_type r) = Inr m"
  shows "fst (setup_pfcp_association tbl args s) = Return ()"
    and "association_established (snd (setup_pfcp_association tbl args s))"
proof -
  let ?s1 = "snd (get_sequence_num True s)"
  let ?pkt = "craft_pfcp_association_setup_packet ?s1"
  have in1: "inbox ?s1 = r # rest" by (simp add: assms)
  note m = send_recv_mismatch(5) [OF in1 assms(3) assms(4) assms(5), where pkt = ?pkt and v = 0]
  have eq: "setup_pfcp_association tbl args s =
              (Return (), (snd (send_recv_pfcp tbl ?pkt t 0 ?s1))\<lparr>association_established := True\<rparr>)"
    by (simp add: setup_pfcp_association_def Let_def assms(1)) (simp add: and_then_cases m)
  show "fst (setup_pfcp_association tbl args s) = Return ()" by (simp add: eq)
  show "association_established (snd (setup_pfcp_association tbl args s))" by (simp add: eq)
qed

text \<open>
  A set-up response of the expected type that carries no element: the exception leaves
  \<open>setup_pfcp_association\<close> before the assignment of the flag.
\<close>

lemma setup_no_element:
  assumes "MSG_TYPES tbl ''association_setup_response'' = Inr t"
    and "inbox s = r # rest" and "message_type r = t" and "response_IE_list r = []"
  shows "fst (setup_pfcp_association tbl args s) = Raise (AttributeError ''IE_list'')"
    and "association_established (snd (setup_pfcp_association tbl args s))
           = association_established s"
proof -
  let ?s1 = "snd (get_sequence_num True s)"
  let ?pkt = "craft_pfcp_association_setup_packet ?s1"
  have in1: "inbox ?s1 = r # rest" by (simp add: assms)
  note m = send_recv_no_element(1) [OF in1 assms(3) assms(4),
             where tbl = tbl and pkt = ?pkt and v = 0]
  have eq: "setup_pfcp_association tbl args s =
              (Raise (AttributeError ''IE_list''), snd (send_recv_pfcp tbl ?pkt t 0 ?s1))"
    by (simp add: setup_pfcp_association_def Let_def assms(1)) (simp add: and_then_cases m)
  show "fst (setup_pfcp_association tbl args s) = Raise (AttributeError ''IE_list'')"
    by (simp add: eq)
  show "association_established (snd (setup_pfcp_association tbl args s))
          = association_established s"
    by (simp add: eq send_recv_frame)
qed

lemma setup_without_elements:
  "fst (setup_pfcp_association example_message_types parsed
          (start\<lparr>inbox := [reply_without_elements 6]\<rparr>))
     = Raise (AttributeError ''IE_list'')
   \<and> \<not> association_established
         (snd (setup_pfcp_association example_message_types parsed
                 (start\<lparr>inbox := [reply_without_elements 6]\<rparr>)))"
proof -
  let ?s = "start\<lparr>inbox := [reply_without_elements 6]\<rparr>"
  have i: "inbox ?s = reply_without_elements 6 # []" by simp
  have m: "message_type (reply_without_elements 6) = 6"
    and e: "response_IE_list (reply_without_elements 6) = []"
    by (simp_all add: reply_without_elements_def)
  have f: "\<not> association_established ?s" by (simp add: start_def initial_globals_def)
  show ?thesis
    using setup_no_element [OF msg_types_example(1) i m e, where args = parsed] f by simp
qed

text \<open>
  Claim C3 says that an interrupt clears all session state. \<open>interrupt_association\<close>
  empties the registry \<open>active_sessions\<close> and resets nothing else: the peer's session token
  that \<open>send_recv_pfcp\<close> has recorded in the global \<open>peer_seid\<close>, which
  \<open>craft_pfcp_session_modify_packet\<close> puts into its header, is still there after the
  interrupt. No function of the file ever resets \<open>peer_seid\<close>.
\<close>

theorem interrupt_keeps_peer_token:
  "association_established
     (snd (setup_pfcp_association example_message_types parsed
             (start\<lparr>inbox := [reply_with_fseid 6 9]\<rparr>)))
   \<and> peer_seid
       (snd (setup_pfcp_association example_message_types parsed
               (start\<lparr>inbox := [reply_with_fseid 6 9]\<rparr>))) = Some 9
   \<and> peer_seid
       (snd (interrupt_association parsed
          (snd (setup_pfcp_association example_message_types parsed
                  (start\<lparr>inbox := [reply_with_fseid 6 9]\<rparr>))))) = Some 9
   \<and> peer_seid
       (snd (interrupt_association (parsed\<lparr>ue_count := Some 1\<rparr>)
          (snd (create_pfcp_sessions example_message_types recording_crafts
                  (parsed\<lparr>ue_count := Some 1\<rparr>)
                  (prepared\<lparr>association_established := True,
                            inbox := [reply_with_fseid 51 9]\<rparr>))))) = Some 9"
proof -
  have d: "draw_ids (make_gens (parsed\<lparr>ue_count := Some 1\<rparr>) 1)
     = (Return \<lparr>seid = 1, ue_addr = 285212673, teid1 = 255, teid2 = 256, pdr_id1 = 1,
                pdr_id2 = 2, far_id1 = 1, far_id2 = 2, urr_id1 = 1, urr_id2 = 2,
                qer_id1 = 1, qer_id2 = 2\<rparr>,
        \<lparr>seid_gen = [2], ue_addr_gen = Yielding 285212673 1 0, teid_gen = [],
         far_id_gen = [], pdr_id_gen = [], urr_id_gen = [], qer_id_gen = []\<rparr>)"
    by (simp add: draw_ids_def make_gens_def parsed_def range_iter_def Let_def and_then_def
          next_int_def next_ue_addr_def ret_def get_addresses_from_prefix_def
          yield_address_def upto_rec1)
  have a: "association_established
     (snd (setup_pfcp_association example_message_types parsed
             (start\<lparr>inbox := [reply_with_fseid 6 9]\<rparr>)))
   \<and> peer_seid
       (snd (setup_pfcp_association example_message_types parsed
               (start\<lparr>inbox := [reply_with_fseid 6 9]\<rparr>))) = Some 9"
    by (simp add: setup_pfcp_association_def msg_types_example send_recv_pfcp_def
          reply_with_fseid_def handle_ie_def print_ie_def capture_def start_def
          initial_globals_def get_sequence_num_def and_then_def lift_def Let_def)
  have b: "peer_seid
       (snd (create_pfcp_sessions example_message_types recording_crafts
                  (parsed\<lparr>ue_count := Some 1\<rparr>)
                  (prepared\<lparr>association_established := True,
                            inbox := [reply_with_fseid 51 9]\<rparr>))) = Some 9"
    using d
    by (simp add: create_pfcp_sessions_def read_ue_count_def craft_pfcp_session_est_packet_def
          msg_types_example next_sequence_num_def get_sequence_num_def read_our_seid_def
          add_rules_to_request_def add_ue_rules_def add_pdr_pair_def add_far_pair_def
          add_qer_pair_def add_urr_pair_def recording_crafts_def append_unless_sent_def
          sent_rules_def set_sent_rules_def already_sent_eq send_recv_pfcp_def
          reply_with_fseid_def handle_ie_def print_ie_def capture_def craft_fseid_def
          prepared_def initial_globals_def and_then_def lift_def ret_def Let_def)
  from a b show ?thesis by (simp add: interrupt_association_def)
qed

text \<open>
  Claim C3, as amended. An exchange succeeds when its response has the expected type and
  carries at least one information element (with none, the loop over the elements raises
  \<open>AttributeError\<close> and the flag keeps its value, lemma \<open>setup_no_element\<close>). From a
  state in which no association is established, a set-up exchange that succeeds returns
  with the association established; a release exchange that then succeeds returns with it
  not established; and an interrupt issued while it is established returns with it not
  established, puts nothing on the wire, consumes no datagram and empties the registry of
  sessions \<open>active_sessions\<close>, while the global \<open>peer_seid\<close> keeps its value.
\<close>

theorem association_round_trip:
  assumes "MSG_TYPES tbl ''association_setup_response'' = Inr setup_type"
    and "MSG_TYPES tbl ''association_release_response'' = Inr release_type"
    and "\<not> association_established s"
    and "inbox s = r1 # r2 # rest"
    and "message_type r1 = setup_type" and "message_type r2 = release_type"
    and "response_IE_list r1 \<noteq> []" and "response_IE_list r2 \<noteq> []"
  shows "(case setup_pfcp_association tbl args s of
            (res1, s1) \<Rightarrow>
              res1 = Return () \<and> association_established s1
              \<and> (case teardown_pfcp_association tbl args s1 of
                    (res2, s2) \<Rightarrow> res2 = Return () \<and> \<not> association_established s2)
              \<and> (case interrupt_association args s1 of
                    (res3, s3) \<Rightarrow>
                      res3 = Return () \<and> \<not> association_established s3
                      \<and> wire s3 = wire s1 \<and> inbox s3 = inbox s1
                      \<and> peer_seid s3 = peer_seid s1
                      \<and> active_sessions s3 = Map.empty))"
proof -
  let ?s1 = "snd (setup_pfcp_association tbl args s)"
  note a = setup_ok [OF assms(1) assms(4) assms(5) assms(7), where args = args]
  note b = teardown_ok [OF assms(2) a(3) assms(6) assms(8), where args = args]
  show ?thesis
    using a b by (simp add: case_prod_beta interrupt_association_def)
qed

theorem association_round_trip_witness:
  "MSG_TYPES example_message_types ''association_setup_response'' = Inr 6
   \<and> MSG_TYPES example_message_types ''association_release_response'' = Inr 10
   \<and> \<not> association_established (start\<lparr>inbox := [reply 6, reply 10]\<rparr>)
   \<and> message_type (reply 6) = 6 \<and> response_IE_list (reply 6) \<noteq> []
   \<and> message_type (reply 10) = 10 \<and> response_IE_list (reply 10) \<noteq> []
   \<and> (case setup_pfcp_association example_message_types parsed
              (start\<lparr>inbox := [reply 6, reply 10]\<rparr>) of
         (res1, s1) \<Rightarrow>
           res1 = Return () \<and> association_established s1
           \<and> (case teardown_pfcp_association example_message_types parsed s1 of
                 (res2, s2) \<Rightarrow> res2 = Return () \<and> \<not> association_established s2)
           \<and> (case interrupt_association parsed s1 of
                 (res3, s3) \<Rightarrow>
                   res3 = Return () \<and> \<not> association_established s3
                   \<and> wire s3 = wire s1 \<and> inbox s3 = inbox s1
                      \<and> peer_seid s3 = peer_seid s1
                   \<and> active_sessions s3 = Map.empty))"
proof -
  let ?s = "start\<lparr>inbox := [reply 6, reply 10]\<rparr>"
  have h3: "\<not> association_established ?s" by (simp add: start_def initial_globals_def)
  have h4: "inbox ?s = reply 6 # reply 10 # []" by simp
  have h5: "message_type (reply 6) = 6" and h6: "message_type (reply 10) = 10"
    by (simp_all add: reply_def)
  have h7: "response_IE_list (reply 6) \<noteq> []" and h8: "response_IE_list (reply 10) \<noteq> []"
    by (simp_all add: reply_def)
  show ?thesis
    using h3 h5 h6 h7 h8 msg_types_example(1,2)
      association_round_trip [OF msg_types_example(1) msg_types_example(2) h3 h4 h5 h6 h7 h8,
        where args = parsed]
    by blast
qed

subsection \<open>A response of another kind\<close>





subsection \<open>Sequence numbers\<close>

lemma sequential_numbers:
  "fst (get_sequence_num False s) = sequence_number s + 1
   \<and> sequence_number (snd (get_sequence_num False s)) = sequence_number s + 1
   \<and> fst (get_sequence_num False (snd (get_sequence_num False s))) = sequence_number s + 2"
  by (simp add: get_sequence_num_def)

text \<open>
  A call that runs alone through its four points returns what \<open>get_sequence_num\<close> returns
  and leaves the counter it leaves.
\<close>

lemma call_alone:
  "points (run_calls [0, 0, 0, 0]
             \<lparr>counter = sequence_number s, lock_held = False, points = [At_acquire]\<rparr>)
     = [Returned (fst (get_sequence_num False s))]
   \<and> counter (run_calls [0, 0, 0, 0]
                \<lparr>counter = sequence_number s, lock_held = False, points = [At_acquire]\<rparr>)
       = sequence_number (snd (get_sequence_num False s))"
  by (simp add: run_calls_def call_step_def get_sequence_num_def)

text \<open>
  Claim C5 says that the numbers handed out to the two activities are pairwise distinct.
  \<open>get_sequence_num\<close> reads the counter for its \<open>return\<close> after it has released the lock:
  when the second call runs between the first call's release and its read, both calls
  return the same number. (When each call ends before the next starts, the numbers are
  consecutive: see \<open>sequential_numbers\<close>.)
\<close>

theorem concurrent_calls_collide:
  "points (run_calls [0, 0, 0, 1, 1, 1, 0, 1] (two_calls 0)) = [Returned 2, Returned 2]
   \<and> counter (run_calls [0, 0, 0, 1, 1, 1, 0, 1] (two_calls 0)) = 2
   \<and> points (run_calls [0, 0, 0, 0, 1, 1, 1, 1] (two_calls 0)) = [Returned 1, Returned 2]"
  by (simp add: run_calls_def two_calls_def call_step_def)

text \<open>
  Claim C6 says that the first sequence number obtained after a reset is 1. The reset is
  \<open>get_sequence_num(reset=True)\<close>, which zeroes the counter, increments it and returns 1
  itself; \<open>setup_pfcp_association\<close> discards that value, so the counter stands at 1 after
  the reset and the first number obtained afterwards is 2.
\<close>

theorem first_number_after_reset:
  "fst (get_sequence_num True s) = 1
   \<and> sequence_number (snd (get_sequence_num True s)) = 1
   \<and> fst (get_sequence_num False (snd (get_sequence_num True s))) = 2
   \<and> sequence_number (snd (setup_pfcp_association tbl args s)) = 1
   \<and> fst (get_sequence_num False (snd (setup_pfcp_association tbl args s))) = 2"
proof -
  have s1: "sequence_number (snd (get_sequence_num True s)) = 1"
    by (simp add: get_sequence_num_def)
  have "sequence_number (snd (setup_pfcp_association tbl args s)) = 1"
  proof (cases "MSG_TYPES tbl ''association_setup_response''")
    case (Inl e)
    then show ?thesis by (simp add: setup_pfcp_association_def Let_def s1)
  next
    case (Inr t)
    then show ?thesis
      by (simp add: setup_pfcp_association_def Let_def)
         (simp add: and_then_cases s1 send_recv_frame [where f = sequence_number]
            split: result.split)
  qed
  then show ?thesis
    by (simp add: get_sequence_num_def Let_def)
qed

subsection \<open>The registry of sessions\<close>

lemma ignores_registryD:
  "ignores_registry m \<Longrightarrow>
     m (s\<lparr>active_sessions := a\<rparr>) = (fst (m s), (snd (m s))\<lparr>active_sessions := a\<rparr>)"
  by (simp add: ignores_registry_def)

lemma ir_lift: "ignores_registry (lift v)"
  by (cases v) (simp_all add: ignores_registry_def lift_def)

lemma ir_ret: "ignores_registry (ret x)"
  by (simp add: ignores_registry_def ret_def)

lemma ir_throw: "ignores_registry (throw e)"
  by (simp add: ignores_registry_def throw_def)

lemma ir_and_then:
  assumes "ignores_registry m" and "\<And>x. ignores_registry (f x)"
  shows "ignores_registry (and_then m f)"
  unfolding ignores_registry_def
proof (intro allI)
  fix s a
  show "and_then m f (s\<lparr>active_sessions := a\<rparr>)
          = (fst (and_then m f s), (snd (and_then m f s))\<lparr>active_sessions := a\<rparr>)"
    by (cases "m s"; cases "fst (m s)")
       (auto simp: and_then_def ignores_registryD [OF assms(1)] ignores_registryD [OF assms(2)])
qed

lemma ir_next_sequence_num: "ignores_registry next_sequence_num"
  by (simp add: ignores_registry_def next_sequence_num_def get_sequence_num_def Let_def)

lemma ir_read_our_seid: "ignores_registry read_our_seid"
  by (simp add: ignores_registry_def read_our_seid_def split: option.split)

lemma ir_read_ue_count: "ignores_registry (read_ue_count args)"
  by (simp add: ignores_registry_def read_ue_count_def split: option.split)

lemma ir_append_unless_sent: "ignores_registry (append_unless_sent force_add kind i r ies)"
  by (cases kind)
     (auto simp: ignores_registry_def append_unless_sent_def sent_rules_def set_sent_rules_def
        already_sent_eq split: option.split)

lemma handle_ie_registry:
  "handle_ie v (s\<lparr>active_sessions := a\<rparr>) ie = (handle_ie v s ie)\<lparr>active_sessions := a\<rparr>"
  by (simp add: handle_ie_def print_ie_def py_print_def Let_def)

lemma foldl_handle_ie_registry:
  "foldl (handle_ie v) (s\<lparr>active_sessions := a\<rparr>) ies
     = (foldl (handle_ie v) s ies)\<lparr>active_sessions := a\<rparr>"
  by (induction ies arbitrary: s) (simp_all add: handle_ie_registry)

lemma ir_send_recv: "ignores_registry (send_recv_pfcp tbl pkt expected v)"
  unfolding ignores_registry_def
proof (intro allI)
  fix s :: "'a globals" and a
  have c: "(capture x t)\<lparr>active_sessions := a\<rparr> = capture x (t\<lparr>active_sessions := a\<rparr>)"
    for x and t :: "'a globals"
    by (simp add: capture_def split: option.split)
  have p: "(py_print x t)\<lparr>active_sessions := a\<rparr> = py_print x (t\<lparr>active_sessions := a\<rparr>)"
    for x and t :: "'a globals"
    by (simp add: py_print_def)
  have i: "inbox (capture x t) = inbox t" "inbox (py_print y t) = inbox t"
    "wire (capture x t) = wire t" "wire (py_print y t) = wire t"
    for x y and t :: "'a globals"
    by (simp_all add: capture_def py_print_def split: option.split)
  have u: "(t\<lparr>wire := w\<rparr>)\<lparr>active_sessions := a\<rparr> = (t\<lparr>active_sessions := a\<rparr>)\<lparr>wire := w\<rparr>"
    "(t\<lparr>inbox := b\<rparr>)\<lparr>active_sessions := a\<rparr> = (t\<lparr>active_sessions := a\<rparr>)\<lparr>inbox := b\<rparr>"
    for w b and t :: "'a globals"
    by simp_all
  show "send_recv_pfcp tbl pkt expected v (s\<lparr>active_sessions := a\<rparr>)
          = (fst (send_recv_pfcp tbl pkt expected v s),
             (snd (send_recv_pfcp tbl pkt expected v s))\<lparr>active_sessions := a\<rparr>)"
    by (cases "inbox s")
       (auto simp: send_recv_pfcp_def Let_def c p i u foldl_handle_ie_registry [symmetric]
          and_then_def lift_def simp del: foldl_Cons split: sum.split list.split)
qed

lemma ir_add_ue_rules:
  "ignores_registry
     (add_ue_rules crafts args update add_pdrs add_fars add_urrs add_qers force_add i ies)"
proof -
  have p: "ignores_registry (add_pdr_pair crafts args update force_add i l)" for l
    unfolding add_pdr_pair_def
    by (intro ir_and_then ir_lift ir_append_unless_sent)
  have f: "ignores_registry (add_far_pair crafts args update force_add i l)" for l
    unfolding add_far_pair_def
    by (intro ir_and_then ir_lift ir_append_unless_sent)
  have q: "ignores_registry (add_qer_pair crafts update force_add i l)" for l
    unfolding add_qer_pair_def
    by (intro ir_and_then ir_lift ir_append_unless_sent)
  have u: "ignores_registry (add_urr_pair crafts update force_add i l)" for l
    unfolding add_urr_pair_def
    by (intro ir_and_then ir_lift ir_append_unless_sent)
  have c: "ignores_registry (if b then m else ret l)" if "ignores_registry m"
    for b l and m :: "'a globals \<Rightarrow> 'a ie list result \<times> 'a globals"
    using that by (simp add: ir_ret)
  show ?thesis
    unfolding add_ue_rules_def
    by (intro ir_and_then c p f q u)
qed

lemma ir_add_rules_loop:
  "ignores_registry
     (add_rules_loop crafts args update add_pdrs add_fars add_urrs add_qers force_add n g ies)"
proof (induction n arbitrary: g ies)
  case 0
  show ?case by (simp add: ignores_registry_def)
next
  case (Suc n)
  show ?case
  proof (cases "draw_ids g")
    case (Pair r g')
    show ?thesis
    proof (cases r)
      case (Return i)
      have "ignores_registry
              (and_then
                 (add_ue_rules crafts args update add_pdrs add_fars add_urrs add_qers
                    force_add i ies)
                 (add_rules_loop crafts args update add_pdrs add_fars add_urrs add_qers
                    force_add n g'))"
        by (intro ir_and_then ir_add_ue_rules Suc)
      with Pair Return show ?thesis by (simp add: ignores_registry_def)
    qed (use Pair in \<open>simp_all add: ignores_registry_def\<close>)
  qed
qed

lemma ir_add_rules_to_request:
  "ignores_registry
     (add_rules_to_request crafts args ies update add_pdrs add_fars add_urrs add_qers
        force_add)"
proof (cases "ue_count args")
  case None
  then show ?thesis by (simp add: ignores_registry_def add_rules_to_request_def)
next
  case (Some count)
  from ir_add_rules_loop [of crafts args update add_pdrs add_fars add_urrs add_qers
      force_add "nat count" "make_gens args count" ies]
  show ?thesis by (simp add: ignores_registry_def add_rules_to_request_def Some)
qed

lemma ir_craft_est: "ignores_registry (craft_pfcp_session_est_packet tbl crafts args)"
proof -
  have k: "ignores_registry
             (\<lambda>s. and_then
                     (add_rules_to_request crafts args
                        [IE_NodeId (our_addr s), craft_fseid v (our_addr s), IE_PDNType]
                        False True True True True False)
                     (\<lambda>ies s'.
                        (Return
                           \<lparr>ip_src = our_addr s', ip_dst = peer_addr s',
                            header = \<lparr>hdr_version = Some 1, hdr_S = Some 1,
                                      hdr_message_type = Some mtype,
                                      hdr_seid = Some 0, hdr_seq = Some seq\<rparr>,
                            message = PFCPSessionEstablishmentRequest, message_version = None,
                            IE_list = ies\<rparr>, s'))
                     s)" for v mtype seq
  proof -
    have fin: "ignores_registry
                 (\<lambda>s'. (Return
                           \<lparr>ip_src = our_addr s', ip_dst = peer_addr s',
                            header = \<lparr>hdr_version = Some 1, hdr_S = Some 1,
                                      hdr_message_type = Some mtype,
                                      hdr_seid = Some 0, hdr_seq = Some seq\<rparr>,
                            message = PFCPSessionEstablishmentRequest, message_version = None,
                            IE_list = ies\<rparr>, s'))" for ies :: "'a ie list"
      by (simp add: ignores_registry_def)
    have "ignores_registry
            (and_then
               (add_rules_to_request crafts args l False True True True True False)
               (\<lambda>ies s'.
                  (Return
                     \<lparr>ip_src = our_addr s', ip_dst = peer_addr s',
                      header = \<lparr>hdr_version = Some 1, hdr_S = Some 1,
                                hdr_message_type = Some mtype,
                                hdr_seid = Some 0, hdr_seq = Some seq\<rparr>,
                      message = PFCPSessionEstablishmentRequest, message_version = None,
                      IE_list = ies\<rparr>, s')))" for l
      by (intro ir_and_then ir_add_rules_to_request fin)
    from this [unfolded ignores_registry_def] show ?thesis
      by (simp add: ignores_registry_def)
  qed
  show ?thesis
    unfolding craft_pfcp_session_est_packet_def
    by (intro ir_and_then ir_lift ir_next_sequence_num ir_read_our_seid k)
qed

lemma ir_create: "ignores_registry (create_pfcp_sessions tbl crafts args)"
  unfolding create_pfcp_sessions_def
  by (intro ir_and_then ir_lift ir_read_ue_count ir_craft_est ir_send_recv)

lemma craft_delete_cases:
  "(\<exists>e. craft_pfcp_session_delete_packet tbl session s = (Raise e, s))
   \<or> (\<exists>p. craft_pfcp_session_delete_packet tbl session s
              = (Return p, s\<lparr>sequence_number := sequence_number s + 1\<rparr>)
          \<and> message p = PFCPSessionDeletionRequest)"
  by (cases "MSG_TYPES tbl ''session_deletion_request''"; cases "session_peer_seid session")
     (simp_all add: craft_pfcp_session_delete_packet_def and_then_def lift_def throw_def
        next_sequence_num_def get_sequence_num_def Let_def)

lemma delete_loop_frame:
  assumes "\<And>t x. f (t\<lparr>sequence_number := x\<rparr>) = f t"
  shows "f (snd (delete_loop tbl seids pkt s)) = f s"
proof (induction seids arbitrary: pkt s)
  case Nil
  show ?case by simp
next
  case (Cons k seids)
  show ?case
  proof (cases "active_sessions s k")
    case None
    then show ?thesis by simp
  next
    case (Some session)
    from craft_delete_cases [of tbl session s] show ?thesis
    proof (elim disjE exE conjE)
      fix e assume "craft_pfcp_session_delete_packet tbl session s = (Raise e, s)"
      with Some show ?thesis by (simp add: and_then_def)
    next
      fix p
      assume "craft_pfcp_session_delete_packet tbl session s
                = (Return p, s\<lparr>sequence_number := sequence_number s + 1\<rparr>)"
      with Some Cons [of "Some p" "s\<lparr>sequence_number := sequence_number s + 1\<rparr>"]
      show ?thesis by (simp add: and_then_def assms)
    qed
  qed
qed

lemma delete_loop_missing:
  assumes "k \<in> set seids" and "active_sessions s k = None"
  shows "\<exists>e. fst (delete_loop tbl seids pkt s) = Raise e"
  using assms
proof (induction seids arbitrary: pkt s)
  case Nil
  then show ?case by simp
next
  case (Cons j seids)
  show ?case
  proof (cases "active_sessions s j")
    case None
    then show ?thesis by simp
  next
    case (Some session)
    with Cons.prems have k: "k \<in> set seids" by auto
    from craft_delete_cases [of tbl session s] show ?thesis
    proof (elim disjE exE conjE)
      fix e assume "craft_pfcp_session_delete_packet tbl session s = (Raise e, s)"
      with Some show ?thesis by (simp add: and_then_def)
    next
      fix p
      assume c: "craft_pfcp_session_delete_packet tbl session s
                = (Return p, s\<lparr>sequence_number := sequence_number s + 1\<rparr>)"
      have "active_sessions (s\<lparr>sequence_number := sequence_number s + 1\<rparr>) k = None"
        using Cons.prems(2) by simp
      from Cons.IH [OF k this, of "Some p"] c Some
      show ?thesis by (simp add: and_then_def)
    qed
  qed
qed

lemma delete_missing:
  assumes "ue_count args = Some count"
    and "k \<in> set (range_iter (seid_base args) (seid_base args + count))"
    and "active_sessions s k = None"
  shows "\<exists>e. fst (delete_pfcp_sessions tbl args s) = Raise e"
    and "snd (delete_pfcp_sessions tbl args s)
           = snd (delete_loop tbl (range_iter (seid_base args) (seid_base args + count)) None s)"
proof -
  let ?l = "delete_loop tbl (range_iter (seid_base args) (seid_base args + count)) None s"
  obtain e where e: "fst ?l = Raise e"
    using delete_loop_missing [OF assms(2) assms(3)] by blast
  have "delete_pfcp_sessions tbl args s = (Raise e, snd ?l)"
    using e
    by (cases ?l) (simp add: delete_pfcp_sessions_def read_ue_count_def assms(1) and_then_def)
  then show "\<exists>e. fst (delete_pfcp_sessions tbl args s) = Raise e"
    and "snd (delete_pfcp_sessions tbl args s) = snd ?l"
    by simp_all
qed

lemma delete_first_missing:
  assumes "ue_count args = Some count" and "0 < count"
    and "active_sessions s (seid_base args) = None"
  shows "delete_pfcp_sessions tbl args s = (Raise (KeyError (IntKey (seid_base args))), s)"
proof -
  have "range_iter (seid_base args) (seid_base args + count)
          = seid_base args # [seid_base args + 1..seid_base args + count - 1]"
    using assms(2) by (simp add: range_iter_def upto_rec1)
  then show ?thesis
    by (simp add: delete_pfcp_sessions_def read_ue_count_def assms and_then_def)
qed

lemma two_creates:
  "(case create_pfcp_sessions example_message_types recording_crafts
           (parsed\<lparr>ue_count := Some 1\<rparr>)
           (prepared\<lparr>inbox := [reply_with_fseid 51 9, reply_with_fseid 51 9]\<rparr>) of
      (res1, s1) \<Rightarrow>
        res1 = Return () \<and> peer_seid s1 = Some 9 \<and> active_sessions s1 = Map.empty
        \<and> length (IE_list (last (wire s1))) = 11
        \<and> (case create_pfcp_sessions example_message_types recording_crafts
                   (parsed\<lparr>ue_count := Some 1\<rparr>) s1 of
              (res2, s2) \<Rightarrow>
                res2 = Return () \<and> active_sessions s2 = Map.empty
                \<and> IE_list (last (wire s2))
                    = [IE_NodeId ''10.0.0.1'', IE_FSEID 1 ''10.0.0.1'', IE_PDNType]))"
proof -
  have d: "draw_ids (make_gens (parsed\<lparr>ue_count := Some 1\<rparr>) 1)
     = (Return \<lparr>seid = 1, ue_addr = 285212673, teid1 = 255, teid2 = 256, pdr_id1 = 1,
                pdr_id2 = 2, far_id1 = 1, far_id2 = 2, urr_id1 = 1, urr_id2 = 2,
                qer_id1 = 1, qer_id2 = 2\<rparr>,
        \<lparr>seid_gen = [2], ue_addr_gen = Yielding 285212673 1 0, teid_gen = [],
         far_id_gen = [], pdr_id_gen = [], urr_id_gen = [], qer_id_gen = []\<rparr>)"
    by (simp add: draw_ids_def make_gens_def parsed_def range_iter_def Let_def and_then_def
          next_int_def next_ue_addr_def ret_def get_addresses_from_prefix_def
          yield_address_def upto_rec1)
  show ?thesis
    using d
    by (simp add: create_pfcp_sessions_def read_ue_count_def craft_pfcp_session_est_packet_def
          msg_types_example next_sequence_num_def get_sequence_num_def read_our_seid_def
          add_rules_to_request_def add_ue_rules_def add_pdr_pair_def add_far_pair_def
          add_qer_pair_def add_urr_pair_def recording_crafts_def append_unless_sent_def
          sent_rules_def set_sent_rules_def already_sent_eq send_recv_pfcp_def
          reply_with_fseid_def handle_ie_def print_ie_def capture_def craft_fseid_def
          prepared_def initial_globals_def and_then_def lift_def ret_def Let_def)
qed

text \<open>
  Claim C7 says that deleting a session that was never created fails, and that a second
  create with the same local token fails as a duplicate, both without a change of session
  state. The second part does not hold: \<open>create_pfcp_sessions\<close> never looks at the
  registry and never registers a session. With the names bound and \<open>craft_*\<close> calls that
  succeed, two creates with the same token both return, the second request carrying no
  rule (all are unchanged), and a create returns also when its token is registered. As
  the file stands every create raises, the second like the first: \<open>AttributeError\<close> for
  the parser's namespace and \<open>NameError\<close> for \<open>our_seid\<close> otherwise.
\<close>

theorem second_create_is_not_rejected:
  "fst (create_pfcp_sessions example_message_types recording_crafts
          (parsed\<lparr>ue_count := Some 1\<rparr>)
          (prepared\<lparr>inbox := [reply_with_fseid 51 9, reply_with_fseid 51 9]\<rparr>))
     = Return ()
   \<and> fst (create_pfcp_sessions example_message_types recording_crafts
           (parsed\<lparr>ue_count := Some 1\<rparr>)
           (snd (create_pfcp_sessions example_message_types recording_crafts
                   (parsed\<lparr>ue_count := Some 1\<rparr>)
                   (prepared\<lparr>inbox := [reply_with_fseid 51 9, reply_with_fseid 51 9]\<rparr>))))
       = Return ()
   \<and> fst (create_pfcp_sessions example_message_types recording_crafts
           (parsed\<lparr>ue_count := Some 1\<rparr>)
           (prepared\<lparr>active_sessions := [1 \<mapsto> one_session],
                     inbox := [reply_with_fseid 51 9]\<rparr>))
       = Return ()
   \<and> fst (create_pfcp_sessions example_message_types crafts_as_written parsed start)
       = Raise (AttributeError ''ue_count'')
   \<and> fst (create_pfcp_sessions example_message_types crafts_as_written parsed
           (snd (create_pfcp_sessions example_message_types crafts_as_written parsed start)))
       = Raise (AttributeError ''ue_count'')
   \<and> fst (create_pfcp_sessions example_message_types crafts_as_written
           (parsed\<lparr>ue_count := Some 1\<rparr>) start)
       = Raise (NameError ''our_seid'')"
proof -
  have d: "draw_ids (make_gens (parsed\<lparr>ue_count := Some 1\<rparr>) 1)
     = (Return \<lparr>seid = 1, ue_addr = 285212673, teid1 = 255, teid2 = 256, pdr_id1 = 1,
                pdr_id2 = 2, far_id1 = 1, far_id2 = 2, urr_id1 = 1, urr_id2 = 2,
                qer_id1 = 1, qer_id2 = 2\<rparr>,
        \<lparr>seid_gen = [2], ue_addr_gen = Yielding 285212673 1 0, teid_gen = [],
         far_id_gen = [], pdr_id_gen = [], urr_id_gen = [], qer_id_gen = []\<rparr>)"
    by (simp add: draw_ids_def make_gens_def parsed_def range_iter_def Let_def and_then_def
          next_int_def next_ue_addr_def ret_def get_addresses_from_prefix_def
          yield_address_def upto_rec1)
  have a: "fst (create_pfcp_sessions example_message_types crafts_as_written parsed start)
             = Raise (AttributeError ''ue_count'')"
    "fst (create_pfcp_sessions example_message_types crafts_as_written parsed
           (snd (create_pfcp_sessions example_message_types crafts_as_written parsed start)))
       = Raise (AttributeError ''ue_count'')"
    by (simp_all add: create_pfcp_sessions_def read_ue_count_def parsed_def and_then_def)
  have b: "fst (create_pfcp_sessions example_message_types crafts_as_written
           (parsed\<lparr>ue_count := Some 1\<rparr>) start)
       = Raise (NameError ''our_seid'')"
    by (simp add: create_pfcp_sessions_def read_ue_count_def craft_pfcp_session_est_packet_def
          msg_types_example next_sequence_num_def get_sequence_num_def read_our_seid_def
          start_def initial_globals_def and_then_def lift_def Let_def)
  have c: "fst (create_pfcp_sessions example_message_types recording_crafts
           (parsed\<lparr>ue_count := Some 1\<rparr>)
           (prepared\<lparr>active_sessions := [1 \<mapsto> one_session],
                     inbox := [reply_with_fseid 51 9]\<rparr>))
       = Return ()"
    using d
    by (simp add: create_pfcp_sessions_def read_ue_count_def craft_pfcp_session_est_packet_def
          msg_types_example next_sequence_num_def get_sequence_num_def read_our_seid_def
          add_rules_to_request_def add_ue_rules_def add_pdr_pair_def add_far_pair_def
          add_qer_pair_def add_urr_pair_def recording_crafts_def append_unless_sent_def
          sent_rules_def set_sent_rules_def already_sent_eq send_recv_pfcp_def
          reply_with_fseid_def handle_ie_def print_ie_def capture_def
          prepared_def initial_globals_def and_then_def lift_def ret_def Let_def)
  from a b c two_creates show ?thesis by (simp add: case_prod_beta)
qed

text \<open>
  Claim C7, as amended. Deleting under a local token that is not registered fails: when
  it is the first token of the range, with the \<open>KeyError\<close> of the registry look-up and
  the state exactly as before; for any token of the range, with an exception raised
  before anything is sent, the registry, the peer token, the rule caches and the
  association status as before. \<open>create_pfcp_sessions\<close> leaves the registry as it is, and
  its result does not depend on the registry: a second create with the same token is not
  told from the first.
\<close>

theorem registry_misuse:
  "(ue_count args = Some count \<and> 0 < count \<and> active_sessions s (seid_base args) = None \<longrightarrow>
      delete_pfcp_sessions tbl args s = (Raise (KeyError (IntKey (seid_base args))), s))
   \<and> (ue_count args = Some count \<and> seid_base args \<le> k \<and> k < seid_base args + count
        \<and> active_sessions s k = None \<longrightarrow>
      (\<exists>e. fst (delete_pfcp_sessions tbl args s) = Raise e)
      \<and> active_sessions (snd (delete_pfcp_sessions tbl args s)) = active_sessions s
      \<and> peer_seid (snd (delete_pfcp_sessions tbl args s)) = peer_seid s
      \<and> sent_rules kind (snd (delete_pfcp_sessions tbl args s)) = sent_rules kind s
      \<and> association_established (snd (delete_pfcp_sessions tbl args s))
          = association_established s
      \<and> wire (snd (delete_pfcp_sessions tbl args s)) = wire s)
   \<and> active_sessions (snd (create_pfcp_sessions tbl crafts args s)) = active_sessions s
   \<and> fst (create_pfcp_sessions tbl crafts args (s\<lparr>active_sessions := m\<rparr>))
       = fst (create_pfcp_sessions tbl crafts args s)"
proof -
  have a: "delete_pfcp_sessions tbl args s = (Raise (KeyError (IntKey (seid_base args))), s)"
    if "ue_count args = Some count" "0 < count" "active_sessions s (seid_base args) = None"
    using that by (rule delete_first_missing)
  have b: "(\<exists>e. fst (delete_pfcp_sessions tbl args s) = Raise e)
      \<and> active_sessions (snd (delete_pfcp_sessions tbl args s)) = active_sessions s
      \<and> peer_seid (snd (delete_pfcp_sessions tbl args s)) = peer_seid s
      \<and> sent_rules kind (snd (delete_pfcp_sessions tbl args s)) = sent_rules kind s
      \<and> association_established (snd (delete_pfcp_sessions tbl args s))
          = association_established s
      \<and> wire (snd (delete_pfcp_sessions tbl args s)) = wire s"
    if "ue_count args = Some count" "seid_base args \<le> k" "k < seid_base args + count"
      "active_sessions s k = None"
  proof -
    have "k \<in> set (range_iter (seid_base args) (seid_base args + count))"
      using that(2,3) by (simp add: range_iter_def)
    note d = delete_missing [OF that(1) this that(4), of tbl]
    have "sent_rules kind (t\<lparr>sequence_number := x\<rparr>) = sent_rules kind t"
      for t :: "'a globals" and x
      by (cases kind) (simp_all add: sent_rules_def)
    then show ?thesis
      using d(1) by (simp add: d(2) delete_loop_frame)
  qed
  have c: "create_pfcp_sessions tbl crafts args (s\<lparr>active_sessions := m\<rparr>)
             = (fst (create_pfcp_sessions tbl crafts args s),
                (snd (create_pfcp_sessions tbl crafts args s))\<lparr>active_sessions := m\<rparr>)" for m
    by (rule ignores_registryD [OF ir_create])
  have "snd (create_pfcp_sessions tbl crafts args s)
          = (snd (create_pfcp_sessions tbl crafts args s))\<lparr>active_sessions := active_sessions s\<rparr>"
    using c [of "active_sessions s"] by (simp add: prod_eq_iff)
  from arg_cong [OF this, of active_sessions]
  have "active_sessions (snd (create_pfcp_sessions tbl crafts args s)) = active_sessions s"
    by simp
  with a b c show ?thesis by simp
qed

theorem registry_misuse_witness:
  "ue_count (parsed\<lparr>ue_count := Some 1\<rparr>) = Some 1 \<and> (0::int) < 1
   \<and> seid_base (parsed\<lparr>ue_count := Some 1\<rparr>) = 1
   \<and> active_sessions prepared 1 = None
   \<and> delete_pfcp_sessions example_message_types (parsed\<lparr>ue_count := Some 1\<rparr>) prepared
       = (Raise (KeyError (IntKey 1)), prepared)
   \<and> active_sessions (snd (delete_pfcp_sessions example_message_types
         (parsed\<lparr>ue_count := Some 1\<rparr>) prepared)) = active_sessions prepared
   \<and> fst (create_pfcp_sessions example_message_types recording_crafts
            (parsed\<lparr>ue_count := Some 1\<rparr>) (prepared\<lparr>active_sessions := [1 \<mapsto> one_session]\<rparr>))
       = fst (create_pfcp_sessions example_message_types recording_crafts
            (parsed\<lparr>ue_count := Some 1\<rparr>) prepared)"
proof -
  let ?a = "parsed\<lparr>ue_count := Some 1\<rparr>"
  have h: "ue_count ?a = Some 1" "(0::int) < 1" "seid_base ?a = 1" "seid_base ?a \<le> 1"
    "1 < seid_base ?a + 1" "active_sessions prepared 1 = None"
    by (simp_all add: parsed_def prepared_def initial_globals_def)
  show ?thesis
    using h registry_misuse [of ?a 1 prepared example_message_types 1 PDR recording_crafts
        "[1 \<mapsto> one_session]"]
    by simp
qed

subsection \<open>Termination\<close>

lemma clear_sent_rules_frame:
  assumes "\<And>t x. f (t\<lparr>sent_pdrs := x\<rparr>) = f t" and "\<And>t x. f (t\<lparr>sent_fars := x\<rparr>) = f t"
    and "\<And>t x. f (t\<lparr>sent_urrs := x\<rparr>) = f t" and "\<And>t x. f (t\<lparr>sent_qers := x\<rparr>) = f t"
  shows "f (snd (clear_sent_rules s)) = f s"
proof -
  have c: "f (snd (clear_one kind t)) = f t" for kind t
    by (cases kind) (simp_all add: clear_one_def sent_rules_def set_sent_rules_def assms
        split: option.split)
  show ?thesis
    unfolding clear_sent_rules_def
    by (intro frame_and_then c)
qed

lemma delete_loop_packet:
  assumes "delete_loop tbl seids pkt s = (Return (Some p), s')"
    and "\<And>q. pkt = Some q \<Longrightarrow> message q = PFCPSessionDeletionRequest"
  shows "message p = PFCPSessionDeletionRequest"
  using assms
proof (induction seids arbitrary: pkt s)
  case Nil
  then show ?case by simp
next
  case (Cons k seids)
  show ?case
  proof (cases "active_sessions s k")
    case None
    with Cons.prems show ?thesis by simp
  next
    case (Some session)
    from craft_delete_cases [of tbl session s] show ?thesis
    proof (elim disjE exE conjE)
      fix e assume "craft_pfcp_session_delete_packet tbl session s = (Raise e, s)"
      with Some Cons.prems show ?thesis by (simp add: and_then_def)
    next
      fix q
      assume c: "craft_pfcp_session_delete_packet tbl session s
                = (Return q, s\<lparr>sequence_number := sequence_number s + 1\<rparr>)"
        and m: "message q = PFCPSessionDeletionRequest"
      from Cons.prems(1) Some c
      have "delete_loop tbl seids (Some q) (s\<lparr>sequence_number := sequence_number s + 1\<rparr>)
              = (Return (Some p), s')"
        by (simp add: and_then_def)
      from Cons.IH [OF this] m show ?thesis by simp
    qed
  qed
qed

lemma delete_sends_deletion_only:
  "association_established (snd (delete_pfcp_sessions tbl args s)) = association_established s
   \<and> (wire (snd (delete_pfcp_sessions tbl args s)) = wire s
       \<or> (\<exists>p. wire (snd (delete_pfcp_sessions tbl args s)) = wire s @ [p]
               \<and> message p = PFCPSessionDeletionRequest))"
proof (cases "ue_count args")
  case None
  then show ?thesis by (simp add: delete_pfcp_sessions_def read_ue_count_def and_then_def)
next
  case (Some count)
  let ?l = "delete_loop tbl (range_iter (seid_base args) (seid_base args + count)) None s"
  obtain r s1 where l: "?l = (r, s1)" by (cases ?l)
  have "association_established (snd ?l) = association_established s"
    by (rule delete_loop_frame) simp
  then have a1: "association_established s1 = association_established s" using l by simp
  have "wire (snd ?l) = wire s"
    by (rule delete_loop_frame) simp
  then have w1: "wire s1 = wire s" using l by simp
  have d: "delete_pfcp_sessions tbl args s =
             (case r of
                Return None \<Rightarrow> (Raise (UnboundLocalError ''pkt''), s1)
              | Return (Some pkt) \<Rightarrow>
                  and_then (lift (MSG_TYPES tbl ''session_deletion_response''))
                    (\<lambda>expected. and_then (send_recv_pfcp tbl pkt expected 0)
                       (\<lambda>_. clear_sent_rules)) s1
              | Raise e \<Rightarrow> (Raise e, s1)
              | Blocked \<Rightarrow> (Blocked, s1))"
    by (simp add: delete_pfcp_sessions_def read_ue_count_def Some and_then_def l throw_def
          split: result.split option.split)
  show ?thesis
  proof (cases r)
    case (Return last_pkt)
    show ?thesis
    proof (cases last_pkt)
      case None
      with Return d a1 w1 show ?thesis by simp
    next
      case (Some pkt)
      have m: "message pkt = PFCPSessionDeletionRequest"
        using delete_loop_packet [of tbl _ None s pkt s1] l Return Some by simp
      show ?thesis
      proof (cases "MSG_TYPES tbl ''session_deletion_response''")
        case (Inl e)
        with Return Some d a1 w1 show ?thesis by simp
      next
        case (Inr expected)
        let ?x = "send_recv_pfcp tbl pkt expected 0 s1"
        have e: "delete_pfcp_sessions tbl args s
                   = and_then (send_recv_pfcp tbl pkt expected 0) (\<lambda>_. clear_sent_rules) s1"
          using Return Some d Inr by simp
        have fa: "association_established
                    (snd (and_then (send_recv_pfcp tbl pkt expected 0)
                            (\<lambda>_. clear_sent_rules) s1)) = association_established s1"
          by (intro frame_and_then send_recv_frame clear_sent_rules_frame) simp_all
        have fw: "wire (snd (and_then (send_recv_pfcp tbl pkt expected 0)
                            (\<lambda>_. clear_sent_rules) s1)) = wire (snd ?x)"
          by (cases ?x; cases "fst ?x")
             (simp_all add: and_then_def clear_sent_rules_frame [where f = wire])
        show ?thesis
          using m by (simp add: e fa fw a1 w1 send_recv_wire)
      qed
    qed
  next
    case (Raise e)
    with d a1 w1 show ?thesis by simp
  next
    case Blocked
    with d a1 w1 show ?thesis by simp
  qed
qed

lemma terminate_sends_deletion_only:
  "association_established (snd (terminate tbl args s)) = association_established s
   \<and> (wire (snd (terminate tbl args s)) = wire s
       \<or> (\<exists>p. wire (snd (terminate tbl args s)) = wire s @ [p]
               \<and> message p = PFCPSessionDeletionRequest))"
proof (cases "association_established s")
  case False
  then show ?thesis by (simp add: terminate_def and_then_def)
next
  case True
  let ?s0 = "py_print (Print ''Exiting before association deleted. Deleting..'') s"
  let ?d = "delete_pfcp_sessions tbl args ?s0"
  have t: "terminate tbl args s =
             (case fst ?d of
                Return _ \<Rightarrow> (Raise SystemExit, (snd ?d)\<lparr>script_terminating := True\<rparr>)
              | Raise e \<Rightarrow> (Raise e, snd ?d)
              | Blocked \<Rightarrow> (Blocked, snd ?d))"
    using True by (cases ?d; cases "fst ?d") (simp_all add: terminate_def and_then_def)
  have s0: "association_established ?s0 = association_established s" "wire ?s0 = wire s"
    by (simp_all add: py_print_def)
  from delete_sends_deletion_only [of tbl args ?s0] s0
  show ?thesis
    by (cases "fst ?d") (auto simp: t)
qed

lemma terminate_with_session:
  "(case terminate example_message_types (parsed\<lparr>ue_count := Some 1\<rparr>)
           (prepared\<lparr>association_established := True, active_sessions := [1 \<mapsto> one_session],
                     inbox := [reply 55]\<rparr>) of
      (res, s) \<Rightarrow>
        res = Raise SystemExit
        \<and> map message (wire s) = [PFCPSessionDeletionRequest]
        \<and> association_established s \<and> script_terminating s)"
  by (simp add: terminate_def delete_pfcp_sessions_def read_ue_count_def parsed_def
        prepared_def initial_globals_def reply_def one_session_def range_iter_def upto_rec1
        craft_pfcp_session_delete_packet_def next_sequence_num_def get_sequence_num_def
        msg_types_example send_recv_pfcp_def clear_sent_rules_def clear_one_def
        sent_rules_def set_sent_rules_def craft_fseid_def throw_def handle_ie_def print_ie_def
        capture_def py_print_def and_then_def lift_def Let_def)

text \<open>
  Claim C8 says that \<open>terminate\<close>, run while the association is established, deletes the
  sessions and then releases the association before it exits. \<open>terminate\<close> prints that it
  is deleting the association and calls \<open>delete_pfcp_sessions\<close> only: no release request
  is sent and \<open>association_established\<close> stays set. For the operator's commands
  \<open>associate\<close>, answered by a set-up response that carries a recovery time stamp, and
  \<open>stop\<close>, the deletion itself fails on \<open>args.ue_count\<close>, which the parser does not
  provide, so that nothing but the set-up request is sent; the handler of the command
  loop sets the termination flag and the exception ends the command activity.
\<close>

theorem terminate_without_release:
  "(case handle_user_input example_message_types crafts_as_written
           [(Associate, parsed), (Stop, parsed)] (start\<lparr>inbox := [reply 6]\<rparr>) of
      (res, s) \<Rightarrow>
        res = Raise (AttributeError ''ue_count'')
        \<and> map message (wire s) = [PFCPAssociationSetupRequest]
        \<and> association_established s \<and> script_terminating s)"
  by (simp add: run_choice_def choice_func_def choice_desc_def parsed_def start_def
        initial_globals_def reply_def setup_pfcp_association_def terminate_def
        delete_pfcp_sessions_def read_ue_count_def msg_types_example print_menu_def
        send_recv_pfcp_def get_sequence_num_def craft_pfcp_association_setup_packet_def
        handle_ie_def print_ie_def capture_def py_print_def and_then_def lift_def Let_def)

subsection \<open>The liveness scheduler\<close>

lemma heartbeat_step_quiet: "p \<noteq> Sending \<Longrightarrow> snd (heartbeat_step tbl (p, s)) = s"
  by (cases p) (simp_all add: heartbeat_step_def)

lemma heartbeat_step_Sending:
  "fst (heartbeat_step tbl (p, s)) = Sending \<longleftrightarrow> p = Testing \<and> association_established s"
  by (cases p) (auto simp: heartbeat_step_def split: prod.split result.split)

lemma heartbeat_steps_idle:
  assumes "\<not> association_established s" and "p \<noteq> Sending"
  shows "snd ((heartbeat_step tbl ^^ n) (p, s)) = s
         \<and> fst ((heartbeat_step tbl ^^ n) (p, s)) \<noteq> Sending"
proof (induction n)
  case 0
  show ?case by (simp add: assms)
next
  case (Suc n)
  obtain q where q: "(heartbeat_step tbl ^^ n) (p, s) = (q, s)" and "q \<noteq> Sending"
    using Suc by (cases "(heartbeat_step tbl ^^ n) (p, s)") simp
  then show ?case
    using assms(1) heartbeat_step_Sending [of tbl q s]
    by (simp add: heartbeat_step_quiet)
qed

lemma heartbeat_exited: "(heartbeat_step tbl ^^ n) (Exited, s) = (Exited, s)"
  by (induction n) (simp_all add: heartbeat_step_def)

text \<open>
  With the association established, five polls, the test of the flag and the exchange
  send a probe, which carries two recovery time stamps.
\<close>

lemma established_scheduler_sends:
  "(case send_pfcp_heartbeats example_message_types 7
           (start\<lparr>association_established := True, inbox := [reply 2]\<rparr>) of
      (p, s) \<Rightarrow>
        p = Polling 0 \<and> map message (wire s) = [PFCPHeartbeatRequest]
        \<and> map IE_list (wire s) = [[IE_RecoveryTimeStamp, IE_RecoveryTimeStamp]]
        \<and> map (hdr_seq \<circ> header) (wire s) = [Some 1] \<and> inbox s = [])"
  by (simp add: send_pfcp_heartbeats_def eval_nat_numeral heartbeat_step_def
        HEARTBEAT_PERIOD_def send_heartbeat_def next_sequence_num_def get_sequence_num_def
        msg_types_example send_recv_pfcp_def reply_def handle_ie_def print_ie_def capture_def
        start_def initial_globals_def and_then_def lift_def Let_def)

text \<open>
  Claim C9 says that no probe is sent while the status is Idle, on any tick at which no
  successful set-up has established the association. Two runs of the code send one.

  First, \<open>setup_pfcp_association\<close> sets \<open>association_established\<close> whenever its exchange
  returns, and the exchange also returns after a response of another kind. A set-up
  request answered by an association release response (type 10 where 6 is expected)
  prints the error line and sets the flag; the scheduler's next period then sends a
  heartbeat request, with no successful set-up before it.

  Second, the scheduler tests the flag and sends in two steps, and the command activity
  runs between them. The test finds the flag set; \<open>interrupt_association\<close> clears it; the
  scheduler, past its test, sends the heartbeat request while the status is Idle.
\<close>

theorem probe_without_successful_setup:
  "message_type (reply 10) \<noteq> 6
   \<and> \<not> association_established (start\<lparr>inbox := [reply 10, reply 2]\<rparr>)
   \<and> (case setup_pfcp_association example_message_types parsed
              (start\<lparr>inbox := [reply 10, reply 2]\<rparr>) of
         (res, s1) \<Rightarrow>
           res = Return () \<and> association_established s1
           \<and> stdout s1
               = [Print (''ERROR: Expected response of type association_setup_response''
                           @ '' but received association_release_response'')]
           \<and> (case send_pfcp_heartbeats example_message_types 7 s1 of
                 (p, s2) \<Rightarrow>
                   p = Polling 0
                   \<and> map message (wire s2)
                       = [PFCPAssociationSetupRequest, PFCPHeartbeatRequest]))
   \<and> fst (heartbeat_step example_message_types
            (Testing, start\<lparr>association_established := True, inbox := [reply 2]\<rparr>)) = Sending
   \<and> \<not> association_established
         (snd (interrupt_association parsed
                 (start\<lparr>association_established := True, inbox := [reply 2]\<rparr>)))
   \<and> map message
         (wire (snd (heartbeat_step example_message_types
                       (Sending,
                        snd (interrupt_association parsed
                               (start\<lparr>association_established := True,
                                      inbox := [reply 2]\<rparr>))))))
       = [PFCPHeartbeatRequest]"
proof -
  have a: "message_type (reply 10) \<noteq> 6
           \<and> \<not> association_established (start\<lparr>inbox := [reply 10, reply 2]\<rparr>)"
    by (simp add: reply_def start_def initial_globals_def)
  have b: "setup_pfcp_association example_message_types parsed
             (start\<lparr>inbox := [reply 10, reply 2]\<rparr>)
           = (Return (),
              start\<lparr>sequence_number := 1, association_established := True,
                    inbox := [reply 2],
                    wire := [craft_pfcp_association_setup_packet
                               (start\<lparr>sequence_number := 1\<rparr>)],
                    stdout := [Print (''ERROR: Expected response of type ''
                                        @ ''association_setup_response''
                                        @ '' but received ''
                                        @ ''association_release_response'')]\<rparr>)"
    by (simp add: setup_pfcp_association_def msg_types_example Let_def)
       (simp add: send_recv_pfcp_def message_names_example reply_def capture_def
          py_print_def start_def initial_globals_def get_sequence_num_def
          craft_pfcp_association_setup_packet_def and_then_def lift_def Let_def)
  have c: "(case send_pfcp_heartbeats example_message_types 7
                   (start\<lparr>sequence_number := 1, association_established := True,
                         inbox := [reply 2],
                         wire := [craft_pfcp_association_setup_packet
                                    (start\<lparr>sequence_number := 1\<rparr>)],
                         stdout := [Print (''ERROR: Expected response of type ''
                                             @ ''association_setup_response''
                                             @ '' but received ''
                                             @ ''association_release_response'')]\<rparr>) of
              (p, s2) \<Rightarrow>
                p = Polling 0
                \<and> map message (wire s2)
                    = [PFCPAssociationSetupRequest, PFCPHeartbeatRequest])"
    by (simp add: send_pfcp_heartbeats_def eval_nat_numeral heartbeat_step_def
          HEARTBEAT_PERIOD_def send_heartbeat_def next_sequence_num_def get_sequence_num_def
          msg_types_example send_recv_pfcp_def reply_def handle_ie_def print_ie_def
          capture_def start_def initial_globals_def craft_pfcp_association_setup_packet_def
          and_then_def lift_def Let_def)
  have d: "fst (heartbeat_step example_message_types
                  (Testing, start\<lparr>association_established := True, inbox := [reply 2]\<rparr>))
           = Sending"
    by (simp add: heartbeat_step_def)
  have e: "\<not> association_established
               (snd (interrupt_association parsed
                       (start\<lparr>association_established := True, inbox := [reply 2]\<rparr>)))"
    by (simp add: interrupt_association_def)
  have f: "map message
             (wire (snd (heartbeat_step example_message_types
                           (Sending,
                            snd (interrupt_association parsed
                                   (start\<lparr>association_established := True,
                                          inbox := [reply 2]\<rparr>))))))
           = [PFCPHeartbeatRequest]"
    by (simp add: heartbeat_step_def interrupt_association_def send_heartbeat_def
          next_sequence_num_def get_sequence_num_def msg_types_example send_recv_pfcp_def
          reply_def handle_ie_def print_ie_def capture_def start_def initial_globals_def
          and_then_def lift_def Let_def)
  show ?thesis
    using a c d e f by (simp add: b)
qed

text \<open>
  Claim C9, as amended. The liveness activity puts a message on the wire only in the step
  that follows a test of \<open>association_established\<close> which found the flag set: a step from
  any other position changes no global, and the sending position is reached only from
  that test. The flag is set by every set-up exchange that returns, also after a response
  of another kind, and the command activity may clear it between the test and the send.
  Run alone from a state in which the flag is not set, the activity changes nothing over
  any number of steps, so that it sends nothing. A poll that finds the termination flag
  set ends the activity, and an activity that has ended stays ended.
\<close>

theorem probe_only_after_flag_test:
  "(p \<noteq> Sending \<longrightarrow> snd (heartbeat_step tbl (p, s)) = s)
   \<and> (fst (heartbeat_step tbl (p, s)) = Sending
        \<longleftrightarrow> p = Testing \<and> association_established s)
   \<and> (\<not> association_established s \<longrightarrow>
        snd (send_pfcp_heartbeats tbl n s) = s
        \<and> wire (snd (send_pfcp_heartbeats tbl n s)) = wire s)
   \<and> (script_terminating t \<longrightarrow>
        heartbeat_step tbl (Polling k, t) = (Exited, t)
        \<and> send_pfcp_heartbeats tbl (Suc n) t = (Exited, t))
   \<and> heartbeat_step tbl (Exited, t) = (Exited, t)
   \<and> (heartbeat_step tbl ^^ n) (Exited, t) = (Exited, t)"
proof -
  have x: "heartbeat_step tbl (Polling k, t) = (Exited, t)" if "script_terminating t" for k
    using that by (simp add: heartbeat_step_def)
  have u: "send_pfcp_heartbeats tbl (Suc n) t = (Exited, t)" if "script_terminating t"
    unfolding send_pfcp_heartbeats_def funpow_Suc_right
    by (simp add: x [OF that] heartbeat_exited)
  have e: "heartbeat_step tbl (Exited, t) = (Exited, t)"
    by (simp add: heartbeat_step_def)
  have i: "snd (send_pfcp_heartbeats tbl n s) = s" if "\<not> association_established s"
    unfolding send_pfcp_heartbeats_def
    using that heartbeat_steps_idle [where s = s and p = "Polling 0" and tbl = tbl and n = n]
    by simp
  show ?thesis
    using x u e i heartbeat_step_Sending [of tbl p s]
    by (simp add: heartbeat_step_quiet heartbeat_exited)
qed

theorem probe_only_after_flag_test_witness:
  "Testing \<noteq> Sending
   \<and> \<not> association_established start
   \<and> heartbeat_step example_message_types (Testing, start) = (Polling 0, start)
   \<and> snd (send_pfcp_heartbeats example_message_types 12 start) = start
   \<and> association_established (start\<lparr>association_established := True\<rparr>)
   \<and> fst (heartbeat_step example_message_types
            (Testing, start\<lparr>association_established := True\<rparr>)) = Sending
   \<and> script_terminating (start\<lparr>script_terminating := True\<rparr>)
   \<and> heartbeat_step example_message_types (Polling 2, start\<lparr>script_terminating := True\<rparr>)
       = (Exited, start\<lparr>script_terminating := True\<rparr>)
   \<and> send_pfcp_heartbeats example_message_types (Suc 12) (start\<lparr>script_terminating := True\<rparr>)
       = (Exited, start\<lparr>script_terminating := True\<rparr>)"
proof -
  have a: "\<not> association_established start" by (simp add: start_def initial_globals_def)
  have b: "script_terminating (start\<lparr>script_terminating := True\<rparr>)" by simp
  have c: "heartbeat_step example_message_types (Testing, start) = (Polling 0, start)"
    using a by (simp add: heartbeat_step_def)
  show ?thesis
    using a b c
      probe_only_after_flag_test [of Testing example_message_types start 12
        "start\<lparr>script_terminating := True\<rparr>" 2]
      probe_only_after_flag_test [of Testing example_message_types
        "start\<lparr>association_established := True\<rparr>" 12 start 2]
    by simp
qed

subsection \<open>The identifiers of the rules\<close>

lemma draw_ids_Return:
  assumes "draw_ids g = (Return i, g')"
  shows "\<exists>a b rest_q c d rest_u.
           qer_id_gen g = a # b # rest_q \<and> qer_id1 i = a \<and> qer_id2 i = b
           \<and> qer_id_gen g' = rest_q
           \<and> urr_id_gen g = c # d # rest_u \<and> urr_id1 i = c \<and> urr_id2 i = d
           \<and> urr_id_gen g' = rest_u"
  using assms
  by (auto simp: draw_ids_def and_then_def next_int_def next_ue_addr_def ret_def
        split: list.splits prod.splits sum.splits)

lemma add_ue_rules_qer_base:
  "add_ue_rules crafts (args\<lparr>qer_base := q\<rparr>) update add_pdrs add_fars add_urrs add_qers
     force_add i ies
   = add_ue_rules crafts args update add_pdrs add_fars add_urrs add_qers force_add i ies"
proof -
  have p: "add_pdr_pair crafts (args\<lparr>qer_base := q\<rparr>) = add_pdr_pair crafts args"
    by (simp add: add_pdr_pair_def fun_eq_iff)
  have f: "add_far_pair crafts (args\<lparr>qer_base := q\<rparr>) = add_far_pair crafts args"
    by (simp add: add_far_pair_def fun_eq_iff)
  show ?thesis by (simp add: add_ue_rules_def p f cong: if_cong)
qed

lemma add_rules_loop_qer_base:
  "add_rules_loop crafts (args\<lparr>qer_base := q\<rparr>) update add_pdrs add_fars add_urrs add_qers
     force_add n g
   = add_rules_loop crafts args update add_pdrs add_fars add_urrs add_qers force_add n g"
proof (induction n arbitrary: g)
  case 0
  show ?case by (intro ext) simp
next
  case (Suc n)
  show ?case
    by (intro ext) (simp add: Suc add_ue_rules_qer_base split: prod.split result.split)
qed

lemma make_gens_qer_base: "make_gens (args\<lparr>qer_base := q\<rparr>) count = make_gens args count"
  by (simp add: make_gens_def)

lemma add_rules_to_request_qer_base:
  "add_rules_to_request crafts (args\<lparr>qer_base := q\<rparr>) ies update add_pdrs add_fars add_urrs
     add_qers force_add
   = add_rules_to_request crafts args ies update add_pdrs add_fars add_urrs add_qers force_add"
  by (intro ext)
     (simp add: add_rules_to_request_def add_rules_loop_qer_base make_gens_qer_base
        split: option.split)

lemma read_ue_count_qer_base: "read_ue_count (args\<lparr>qer_base := q\<rparr>) = read_ue_count args"
  by (simp add: read_ue_count_def fun_eq_iff)

lemma delete_pfcp_sessions_qer_base:
  "delete_pfcp_sessions tbl (args\<lparr>qer_base := q\<rparr>) = delete_pfcp_sessions tbl args"
  by (simp add: delete_pfcp_sessions_def read_ue_count_qer_base)

lemma choice_func_qer_base:
  "choice_func tbl crafts c (args\<lparr>qer_base := q\<rparr>) = choice_func tbl crafts c args"
proof (cases c)
  case Create
  then show ?thesis
    by (simp add: choice_func_def create_pfcp_sessions_def craft_pfcp_session_est_packet_def
          read_ue_count_qer_base add_rules_to_request_qer_base)
next
  case Modify
  then show ?thesis
    by (simp add: choice_func_def modify_pfcp_sessions_def
          craft_pfcp_session_modify_packet_def add_rules_to_request_qer_base
          cong: if_cong)
next
  case Stop
  then show ?thesis
    by (simp add: choice_func_def terminate_def delete_pfcp_sessions_qer_base cong: if_cong)
qed (simp_all add: choice_func_def setup_pfcp_association_def teardown_pfcp_association_def
       interrupt_association_def delete_pfcp_sessions_qer_base fun_eq_iff)

text \<open>
  Claim C10. \<open>add_rules_to_request\<close> builds the generator of QER identifiers from
  \<open>args.urr_base\<close>: it is the same range as the generator of URR identifiers, every round
  of the loop draws for its two QERs the identifiers it draws for its two URRs, and the
  value of \<open>args.qer_base\<close> changes neither the request nor what any command does.
\<close>

theorem qer_identifiers_use_urr_base:
  "qer_id_gen (make_gens args count) = range_iter (urr_base args) (urr_base args + count * 2)
   \<and> qer_id_gen (make_gens args count) = urr_id_gen (make_gens args count)
   \<and> make_gens (args\<lparr>qer_base := q\<rparr>) count = make_gens args count
   \<and> (qer_id_gen g = urr_id_gen g \<and> draw_ids g = (Return i, g') \<longrightarrow>
         qer_id1 i = urr_id1 i \<and> qer_id2 i = urr_id2 i \<and> qer_id_gen g' = urr_id_gen g')
   \<and> add_rules_to_request crafts (args\<lparr>qer_base := q\<rparr>) ies update add_pdrs add_fars
        add_urrs add_qers force_add s
       = add_rules_to_request crafts args ies update add_pdrs add_fars add_urrs add_qers
           force_add s
   \<and> run_choice tbl crafts c (args\<lparr>qer_base := q\<rparr>) s = run_choice tbl crafts c args s"
proof -
  have d: "qer_id1 i = urr_id1 i \<and> qer_id2 i = urr_id2 i \<and> qer_id_gen g' = urr_id_gen g'"
    if "qer_id_gen g = urr_id_gen g" and "draw_ids g = (Return i, g')"
    using draw_ids_Return [OF that(2)] that(1) by auto
  show ?thesis
    using d
    by (simp add: make_gens_def Let_def add_rules_to_request_qer_base run_choice_def
          choice_func_qer_base)
qed

lemma draw_example:
  "draw_ids (make_gens (parsed\<lparr>ue_count := Some 1, urr_base := 7\<rparr>) 1)
     = (Return \<lparr>seid = 1, ue_addr = 285212673, teid1 = 255, teid2 = 256, pdr_id1 = 1,
                pdr_id2 = 2, far_id1 = 1, far_id2 = 2, urr_id1 = 7, urr_id2 = 8,
                qer_id1 = 7, qer_id2 = 8\<rparr>,
        \<lparr>seid_gen = [2], ue_addr_gen = Yielding 285212673 1 0, teid_gen = [],
         far_id_gen = [], pdr_id_gen = [], urr_id_gen = [], qer_id_gen = []\<rparr>)"
  by (simp add: draw_ids_def make_gens_def parsed_def range_iter_def Let_def and_then_def
        next_int_def next_ue_addr_def ret_def get_addresses_from_prefix_def
        yield_address_def upto_rec1)

theorem qer_identifiers_use_urr_base_witness:
  "qer_id_gen (make_gens (parsed\<lparr>ue_count := Some 1, urr_base := 7\<rparr>) 1)
     = urr_id_gen (make_gens (parsed\<lparr>ue_count := Some 1, urr_base := 7\<rparr>) 1)
   \<and> draw_ids (make_gens (parsed\<lparr>ue_count := Some 1, urr_base := 7\<rparr>) 1)
       = (Return \<lparr>seid = 1, ue_addr = 285212673, teid1 = 255, teid2 = 256, pdr_id1 = 1,
                  pdr_id2 = 2, far_id1 = 1, far_id2 = 2, urr_id1 = 7, urr_id2 = 8,
                  qer_id1 = 7, qer_id2 = 8\<rparr>,
          \<lparr>seid_gen = [2], ue_addr_gen = Yielding 285212673 1 0, teid_gen = [],
           far_id_gen = [], pdr_id_gen = [], urr_id_gen = [], qer_id_gen = []\<rparr>)
   \<and> add_rules_to_request recording_crafts
         (parsed\<lparr>ue_count := Some 1, urr_base := 7, qer_base := 100\<rparr>) []
         False False False False True False prepared
       = add_rules_to_request recording_crafts
           (parsed\<lparr>ue_count := Some 1, urr_base := 7\<rparr>) []
           False False False False True False prepared
   \<and> fst (add_rules_to_request recording_crafts
            (parsed\<lparr>ue_count := Some 1, urr_base := 7\<rparr>) []
            False False False False True False prepared)
       = Return [IE_Rule (Recorded QER 7 False []), IE_Rule (Recorded QER 8 False [])]"
proof -
  let ?a = "parsed\<lparr>ue_count := Some 1, urr_base := 7\<rparr>"
  let ?i = "\<lparr>seid = 1, ue_addr = 285212673, teid1 = 255, teid2 = 256, pdr_id1 = 1,
             pdr_id2 = 2, far_id1 = 1, far_id2 = 2, urr_id1 = 7, urr_id2 = 8,
             qer_id1 = 7, qer_id2 = 8\<rparr>"
  let ?g' = "\<lparr>seid_gen = [2], ue_addr_gen = Yielding 285212673 1 0, teid_gen = [],
              far_id_gen = [], pdr_id_gen = [], urr_id_gen = [], qer_id_gen = []\<rparr>"
  have run: "fst (add_rules_to_request recording_crafts ?a []
                    False False False False True False prepared)
               = Return [IE_Rule (Recorded QER 7 False []), IE_Rule (Recorded QER 8 False [])]"
    using draw_example
    by (simp add: add_rules_to_request_def add_ue_rules_def
          add_qer_pair_def recording_crafts_def append_unless_sent_def sent_rules_def
          set_sent_rules_def already_sent_eq prepared_def initial_globals_def
          and_then_def lift_def ret_def)
  note T = qer_identifiers_use_urr_base [of ?a 1 100 "make_gens ?a 1" ?i ?g'
        recording_crafts "[]" False False False False True False prepared]
  have e: "qer_id_gen (make_gens ?a 1) = urr_id_gen (make_gens ?a 1)"
    using T by blast
  have i: "add_rules_to_request recording_crafts (?a\<lparr>qer_base := 100\<rparr>) []
             False False False False True False prepared
           = add_rules_to_request recording_crafts ?a []
               False False False False True False prepared"
    using T by blast
  show ?thesis
    using e i draw_example run by simp
qed

end
